theory Spec2Isabelle
  imports Main
begin

section \<open>JavaScript values read by the session code\<close>

text \<open>
  The client reads JSON documents (response bodies, JWT payloads) as untyped values.
  Numbers are the integer seconds and status codes the code compares; a JSON object is
  the list of its properties.
\<close>

datatype jsval =
    JUndefined
  | JNull
  | JBool bool
  | JNum int
  | JStr string
  | JObj "(string \<times> jsval) list"
  | JArr "jsval list"

text \<open>\<open>!v\<close> is false exactly for the truthy values.\<close>

fun truthy :: "jsval \<Rightarrow> bool" where
  "truthy JUndefined = False"
| "truthy JNull = False"
| "truthy (JBool b) = b"
| "truthy (JNum n) = (n \<noteq> 0)"
| "truthy (JStr s) = (s \<noteq> [])"
| "truthy (JObj kvs) = True"
| "truthy (JArr vs) = True"

text \<open>
  \<open>v.k\<close> for the property names the client reads (\<open>exp\<close>, \<open>success\<close>, \<open>data\<close>,
  \<open>error\<close>, \<open>code\<close>, \<open>message\<close>, \<open>details\<close>, \<open>accessToken\<close>, \<open>refreshToken\<close>): the
  property of an object, \<open>undefined\<close> on an object without it and on every primitive and
  array. On \<open>null\<close> and \<open>undefined\<close> the access throws a TypeError; the callers below
  test for that case before they use \<open>get_prop\<close>.
\<close>

fun get_prop :: "jsval \<Rightarrow> string \<Rightarrow> jsval" where
  "get_prop (JObj kvs) k = (case map_of kvs k of Some v \<Rightarrow> v | None \<Rightarrow> JUndefined)"
| "get_prop v k = JUndefined"

definition nullish :: "jsval \<Rightarrow> bool" where
  "nullish v = (v = JNull \<or> v = JUndefined)"

text \<open>
  What the browser and the cookie library do and the repository does not define:
  \<^item> \<open>parse_segment\<close>: \<open>JSON.parse(decodeURIComponent(...atob(base64)...))\<close> on the payload
    segment of a token, \<open>None\<close> when one of the three throws;
  \<^item> \<open>number_of\<close>: the number a non-empty string, an object or an array converts to in a
    comparison, \<open>None\<close> for NaN;
  \<^item> \<open>cookie_text\<close>: the text \<open>getCookie\<close> reads back once \<open>setCookie\<close> has stored a value,
    \<open>None\<close> when \<open>setCookie\<close> throws on it (a value it cannot serialise, such as a string
    with a lone surrogate);
  \<^item> \<open>null_read_message\<close>: the message of the TypeError raised by reading a property of
    \<open>null\<close>.
\<close>

record platform =
  parse_segment :: "string \<Rightarrow> jsval option"
  number_of :: "jsval \<Rightarrow> int option"
  cookie_text :: "jsval \<Rightarrow> string option"
  null_read_message :: string

text \<open>ToNumber, as the relational operators apply it to their left operand.\<close>

fun to_number :: "platform \<Rightarrow> jsval \<Rightarrow> int option" where
  "to_number pf JUndefined = None"
| "to_number pf JNull = Some 0"
| "to_number pf (JBool b) = Some (if b then 1 else 0)"
| "to_number pf (JNum n) = Some n"
| "to_number pf (JStr s) = (if s = [] then Some 0 else number_of pf (JStr s))"
| "to_number pf v = number_of pf v"

definition js_le :: "platform \<Rightarrow> jsval \<Rightarrow> int \<Rightarrow> bool" where
  "js_le pf v n = (case to_number pf v of None \<Rightarrow> False | Some m \<Rightarrow> m \<le> n)"

definition js_gt :: "platform \<Rightarrow> jsval \<Rightarrow> int \<Rightarrow> bool" where
  "js_gt pf v n = (case to_number pf v of None \<Rightarrow> False | Some m \<Rightarrow> m > n)"

section \<open>Token store (cookies)\<close>

text \<open>
  Two cookies, each with the instant (milliseconds since the epoch) at which the browser
  drops it: \<open>maxAge\<close> is 15 minutes for the access token and 90 days for the refresh token.
\<close>

record cookie =
  cvalue :: string
  expires :: int

record cookies =
  auth_token :: "cookie option"
  refresh_token :: "cookie option"

definition getCookie :: "cookie option \<Rightarrow> int \<Rightarrow> string option" where
  "getCookie c now = (case c of None \<Rightarrow> None
     | Some k \<Rightarrow> if now < expires k then Some (cvalue k) else None)"

definition getAuthToken :: "cookies \<Rightarrow> int \<Rightarrow> string option" where
  "getAuthToken ck now = getCookie (auth_token ck) now"

definition getRefreshToken :: "cookies \<Rightarrow> int \<Rightarrow> string option" where
  "getRefreshToken ck now = getCookie (refresh_token ck) now"

text \<open>
  Each setter calls \<open>setCookie\<close> inside its own \<open>try\<close>; a throw is logged and swallowed and
  leaves the cookie as it was.
\<close>

definition setAuthToken :: "platform \<Rightarrow> jsval \<Rightarrow> int \<Rightarrow> cookies \<Rightarrow> cookies" where
  "setAuthToken pf token now ck =
     (case cookie_text pf token of
        None \<Rightarrow> ck
      | Some text \<Rightarrow>
          ck\<lparr>auth_token := Some \<lparr>cvalue = text, expires = now + 1000 * (60 * 15)\<rparr>\<rparr>)"

definition setRefreshToken :: "platform \<Rightarrow> jsval \<Rightarrow> int \<Rightarrow> cookies \<Rightarrow> cookies" where
  "setRefreshToken pf token now ck =
     (case cookie_text pf token of
        None \<Rightarrow> ck
      | Some text \<Rightarrow>
          ck\<lparr>refresh_token :=
               Some \<lparr>cvalue = text, expires = now + 1000 * (60 * 60 * 24 * 90)\<rparr>\<rparr>)"

definition removeAuthTokens :: "cookies \<Rightarrow> cookies" where
  "removeAuthTokens ck = ck\<lparr>auth_token := None, refresh_token := None\<rparr>"

section \<open>Token inspector\<close>

text \<open>\<open>s.split(d)\<close> for a one-character separator.\<close>

fun split_on :: "char \<Rightarrow> string \<Rightarrow> string list" where
  "split_on d [] = [[]]"
| "split_on d (c # cs) =
     (if c = d then [] # split_on d cs
      else (case split_on d cs of [] \<Rightarrow> [[c]] | w # ws \<Rightarrow> (c # w) # ws))"

definition replace_char :: "char \<Rightarrow> char \<Rightarrow> string \<Rightarrow> string" where
  "replace_char a b s = map (\<lambda>c. if c = a then b else c) s"

text \<open>
  \<open>decodeJWTPayload\<close>: the second dot-separated segment, base64url turned into base64,
  decoded and parsed. A token without a second segment makes \<open>replace\<close> throw on
  \<open>undefined\<close>; that and every failure of the decoding are caught and give \<open>null\<close>.
\<close>

definition decodeJWTPayload :: "platform \<Rightarrow> string \<Rightarrow> jsval" where
  "decodeJWTPayload pf token =
     (case split_on CHR ''.'' token of
        h # base64Url # rest \<Rightarrow>
          (let base64 = replace_char CHR ''_'' CHR ''/'' (replace_char CHR ''-'' CHR ''+'' base64Url)
           in case parse_segment pf base64 of None \<Rightarrow> JNull | Some v \<Rightarrow> v)
      | _ \<Rightarrow> JNull)"

definition isTokenExpiredOrExpiringSoon :: "platform \<Rightarrow> int \<Rightarrow> string option \<Rightarrow> bool" where
  "isTokenExpiredOrExpiringSoon pf now token =
     (case token of
        None \<Rightarrow> True
      | Some t \<Rightarrow>
          if t = [] then True
          else
            let payload = decodeJWTPayload pf t in
            if \<not> truthy payload \<or> \<not> truthy (get_prop payload ''exp'') then True
            else
              let currentTime = now div 1000; bufferTime = 2 * 60
              in js_le pf (get_prop payload ''exp'') (currentTime + bufferTime))"

definition isRefreshTokenValid :: "platform \<Rightarrow> cookies \<Rightarrow> int \<Rightarrow> bool" where
  "isRefreshTokenValid pf ck now =
     (case getRefreshToken ck now of
        None \<Rightarrow> False
      | Some refreshToken \<Rightarrow>
          if refreshToken = [] then False
          else
            let payload = decodeJWTPayload pf refreshToken in
            if \<not> truthy payload \<or> \<not> truthy (get_prop payload ''exp'') then False
            else
              let currentTime = now div 1000
              in js_gt pf (get_prop payload ''exp'') currentTime)"

text \<open>
  The expiration claim of a token as the comparisons read it: the \<open>exp\<close> property of the
  decoded payload, converted to a number.
\<close>

definition expiry_claim :: "platform \<Rightarrow> string \<Rightarrow> int option" where
  "expiry_claim pf t = to_number pf (get_prop (decodeJWTPayload pf t) ''exp'')"

section \<open>Authentication store\<close>

record ('u, 'o) auth_state =
  user :: "'u option"
  organization :: "'o option"
  isAuthenticated :: bool
  isLoading :: bool
  error :: "string option"

text \<open>The store's actions run on the store state and the cookies.\<close>

definition clearAuth :: "('u, 'o) auth_state \<times> cookies \<Rightarrow> ('u, 'o) auth_state \<times> cookies" where
  "clearAuth s =
     (case s of (a, ck) \<Rightarrow>
        (a\<lparr>user := None, organization := None, isAuthenticated := False, error := None\<rparr>,
         removeAuthTokens ck))"

definition string_truthy :: "string option \<Rightarrow> bool" where
  "string_truthy t = (case t of None \<Rightarrow> False | Some s \<Rightarrow> s \<noteq> [])"

definition checkAuth ::
  "platform \<Rightarrow> int \<Rightarrow> ('u, 'o) auth_state \<times> cookies \<Rightarrow> bool \<times> (('u, 'o) auth_state \<times> cookies)" where
  "checkAuth pf now s =
     (let token = getAuthToken (snd s) now;
          hasValidRefreshToken = isRefreshTokenValid pf (snd s) now
      in if \<not> hasValidRefreshToken
         then (False, if isAuthenticated (fst s) then clearAuth s else s)
         else
           let isAuth = (string_truthy token \<or> hasValidRefreshToken)
           in (isAuth, if \<not> isAuth \<and> isAuthenticated (fst s) then clearAuth s else s))"

section \<open>API client\<close>

datatype ApiError = ApiError (code: jsval) (message: jsval) (statusCode: int) (details: jsval)

definition INVALID_TOKEN :: jsval where
  "INVALID_TOKEN = JStr ''INVALID_TOKEN''"

definition TOKEN_EXPIRED :: jsval where
  "TOKEN_EXPIRED = JStr ''TOKEN_EXPIRED''"

definition NETWORK_ERROR :: jsval where
  "NETWORK_ERROR = JStr ''NETWORK_ERROR''"

text \<open>
  The options the client's methods pass to \<open>request\<close> (a method and a JSON body, the body
  kept as the value that is serialised), and the call handed to \<open>fetch\<close>: the URL, the
  method, the bearer token of the Authorization header and the body.
\<close>

record request_init =
  rmethod :: "string option"
  rbody :: "jsval option"

record http_request =
  url :: string
  http_method :: "string option"
  authorization :: "string option"
  http_body :: "jsval option"

text \<open>
  What \<open>fetch\<close> gives back: a rejection (an Error with its message) or a response with
  its status, its status text and what \<open>response.json()\<close> yields, \<open>Inl\<close> being the
  message of the error it throws on a body that is not JSON.
\<close>

datatype fetch_result =
    NetworkFailure string
  | HttpResponse (status: int) (statusText: string) (json: "string + jsval")

text \<open>
  The network answers the \<open>n\<close>-th call of \<open>fetch\<close> after some milliseconds with a result.
\<close>

type_synonym network = "nat \<Rightarrow> http_request \<Rightarrow> nat \<times> fetch_result"

text \<open>
  The client object with what it shares with its environment: the cookies, the clock
  (milliseconds) and the calls of \<open>fetch\<close> made so far. \<open>'p\<close> is the representation of
  the promise held in \<open>refreshPromise\<close>.
\<close>

record 'p client =
  baseURL :: string
  isRefreshing :: bool
  refreshPromise :: "'p option"
  jar :: cookies
  clock :: int
  sent :: "http_request list"

definition fetch :: "network \<Rightarrow> http_request \<Rightarrow> 'p client \<Rightarrow> fetch_result \<times> 'p client" where
  "fetch net rq s =
     (case net (length (sent s)) rq of
        (elapsed, r) \<Rightarrow> (r, s\<lparr>clock := clock s + int elapsed, sent := sent s @ [rq]\<rparr>))"

definition protected_endpoint :: "string \<Rightarrow> bool" where
  "protected_endpoint endpoint =
     (endpoint \<noteq> ''/auth/refresh'' \<and> endpoint \<noteq> ''/auth/login''
      \<and> endpoint \<noteq> ''/auth/register'')"

definition build_config :: "'p client \<Rightarrow> string \<Rightarrow> request_init \<Rightarrow> http_request" where
  "build_config s endpoint options =
     (let token = getAuthToken (jar s) (clock s)
      in \<lparr>url = baseURL s @ endpoint, http_method = rmethod options,
          authorization = (if string_truthy token then token else None),
          http_body = rbody options\<rparr>)"

text \<open>
  \<open>setAuthToken(data.accessToken); setRefreshToken(data.refreshToken)\<close>, the two calls
  that follow a successful login, registration or renewal, at time \<open>t\<close>.
\<close>

definition write_pair :: "platform \<Rightarrow> jsval \<Rightarrow> int \<Rightarrow> cookies \<Rightarrow> cookies" where
  "write_pair pf d t ck =
     setRefreshToken pf (get_prop d ''refreshToken'') t
       (setAuthToken pf (get_prop d ''accessToken'') t ck)"

definition store_tokens :: "platform \<Rightarrow> jsval \<Rightarrow> 'p client \<Rightarrow> 'p client" where
  "store_tokens pf d s = s\<lparr>jar := write_pair pf d (clock s) (jar s)\<rparr>"

definition session_expired_error :: ApiError where
  "session_expired_error =
     ApiError TOKEN_EXPIRED (JStr ''Session expired. Please log in again.'') 401 JUndefined"

definition no_refresh_token_error :: ApiError where
  "no_refresh_token_error =
     ApiError INVALID_TOKEN (JStr ''No valid refresh token available'') 401 JUndefined"

definition refresh_failed_error :: ApiError where
  "refresh_failed_error =
     ApiError TOKEN_EXPIRED (JStr ''Failed to refresh token'') 401 JUndefined"

definition error_of_payload :: "jsval \<Rightarrow> int \<Rightarrow> ApiError" where
  "error_of_payload err st =
     ApiError (get_prop err ''code'') (get_prop err ''message'') st (get_prop err ''details'')"

text \<open>
  Reading a property of a \<open>null\<close> body throws a TypeError, which the outer \<open>catch\<close> of
  \<open>request\<close> turns into a network error of status 0.
\<close>

definition type_error :: "platform \<Rightarrow> ApiError" where
  "type_error pf = ApiError NETWORK_ERROR (JStr (null_read_message pf)) 0 JUndefined"

text \<open>The standardized error of a response that is not ok.\<close>

definition standard_error :: "platform \<Rightarrow> jsval \<Rightarrow> int \<Rightarrow> ApiError" where
  "standard_error pf errorResponse st =
     (if nullish errorResponse then type_error pf
      else if truthy (get_prop errorResponse ''error'')
        then error_of_payload (get_prop errorResponse ''error'') st
        else ApiError NETWORK_ERROR (JStr ''An unexpected error occurred'') st JUndefined)"

text \<open>The validation of the body of an ok response.\<close>

definition check_body :: "platform \<Rightarrow> jsval \<Rightarrow> int \<Rightarrow> ApiError + jsval" where
  "check_body pf jsonResponse st =
     (if nullish jsonResponse then Inl (type_error pf)
      else
        case get_prop jsonResponse ''success'' of
          JBool success \<Rightarrow>
            if \<not> success \<and> truthy (get_prop jsonResponse ''error'')
            then Inl (error_of_payload (get_prop jsonResponse ''error'') st)
            else Inr jsonResponse
        | _ \<Rightarrow>
            Inl (ApiError NETWORK_ERROR (JStr ''Invalid response format from server'') st
                   JUndefined))"

text \<open>
  What \<open>request\<close> does with the result of \<open>fetch\<close> (the \<open>try\<close> block and its \<open>catch\<close>):
  the value it returns or the error it throws, or \<open>None\<close> when it enters the branch
  that renews the token and retries.
\<close>

definition handle_response ::
  "platform \<Rightarrow> string \<Rightarrow> bool \<Rightarrow> fetch_result \<Rightarrow> (ApiError + jsval) option" where
  "handle_response pf endpoint isRetry response =
     (case response of
        NetworkFailure msg \<Rightarrow> Some (Inl (ApiError NETWORK_ERROR (JStr msg) 0 JUndefined))
      | HttpResponse st stText body \<Rightarrow>
          if \<not> (200 \<le> st \<and> st \<le> 299) then
            (case body of
               Inl msg \<Rightarrow>
                 Some (Inl (ApiError NETWORK_ERROR
                              (JStr (if stText \<noteq> [] then stText else ''Network error occurred''))
                              st JUndefined))
             | Inr errorResponse \<Rightarrow>
                 if st = 401 \<and> \<not> isRetry \<and> protected_endpoint endpoint then None
                 else Some (Inl (standard_error pf errorResponse st)))
          else
            (case body of
               Inl msg \<Rightarrow> Some (Inl (ApiError NETWORK_ERROR (JStr msg) 0 JUndefined))
             | Inr jsonResponse \<Rightarrow> Some (check_body pf jsonResponse st)))"

text \<open>
  The part of \<open>ensureValidToken\<close> after \<open>await this.refreshPromise\<close> in the caller that
  started the renewal: store the pair of tokens or throw, and reset the two fields in
  \<open>finally\<close>.
\<close>

definition finish_refresh ::
  "platform \<Rightarrow> ApiError + jsval \<Rightarrow> 'p client \<Rightarrow> (ApiError + unit) \<times> 'p client" where
  "finish_refresh pf outcome s =
     (case outcome of
        Inl e \<Rightarrow> (Inl e, s\<lparr>isRefreshing := False, refreshPromise := None\<rparr>)
      | Inr response \<Rightarrow>
          if truthy (get_prop response ''success'') \<and> truthy (get_prop response ''data'')
          then (Inr (),
                (store_tokens pf (get_prop response ''data'') s)
                  \<lparr>isRefreshing := False, refreshPromise := None\<rparr>)
          else (Inl refresh_failed_error, s\<lparr>isRefreshing := False, refreshPromise := None\<rparr>))"

text \<open>
  The same function in a caller that found a renewal in flight:
  \<open>await this.refreshPromise; return\<close>.
\<close>

definition join_refresh :: "ApiError + jsval \<Rightarrow> ApiError + unit" where
  "join_refresh outcome = (case outcome of Inl e \<Rightarrow> Inl e | Inr response \<Rightarrow> Inr ())"

definition refresh_options :: "string \<Rightarrow> request_init" where
  "refresh_options refreshTokenValue =
     \<lparr>rmethod = Some ''POST'', rbody = Some (JObj [(''refreshToken'', JStr refreshTokenValue)])\<rparr>"

subsection \<open>One caller at a time\<close>

text \<open>
  \<open>request\<close> and \<open>ensureValidToken\<close> as one caller runs them from call to settlement. A
  promise is the value it settles with. When a renewal started by another caller is in
  flight, \<open>refreshPromise\<close> holds its settlement, and the joining caller resumes after the
  continuation of the caller that started it, which was registered first.
  In \<open>request\<close>, the retry is returned without \<open>await\<close>, so its rejection passes by the
  \<open>catch\<close> around the renewal.
\<close>

function request ::
    "platform \<Rightarrow> network \<Rightarrow> string \<Rightarrow> request_init \<Rightarrow> bool \<Rightarrow> (ApiError + jsval) client
      \<Rightarrow> (ApiError + jsval) \<times> (ApiError + jsval) client"
  and ensureValidToken ::
    "platform \<Rightarrow> network \<Rightarrow> (ApiError + jsval) client
      \<Rightarrow> (ApiError + unit) \<times> (ApiError + jsval) client"
where
  "request pf net endpoint options isRetry s =
     (case (if protected_endpoint endpoint
               \<and> isTokenExpiredOrExpiringSoon pf (clock s) (getAuthToken (jar s) (clock s))
            then (case ensureValidToken pf net s of
                    (Inl refreshError, s1) \<Rightarrow>
                      (Inl session_expired_error, s1\<lparr>jar := removeAuthTokens (jar s1)\<rparr>)
                  | (Inr u, s1) \<Rightarrow> (Inr (), s1))
            else (Inr (), s)) of
        (Inl e, s1) \<Rightarrow> (Inl e, s1)
      | (Inr u, s1) \<Rightarrow>
          (case fetch net (build_config s1 endpoint options) s1 of
             (response, s2) \<Rightarrow>
               (case handle_response pf endpoint isRetry response of
                  Some r \<Rightarrow> (r, s2)
                | None \<Rightarrow>
                    (case ensureValidToken pf net s2 of
                       (Inr u, s3) \<Rightarrow> request pf net endpoint options True s3
                     | (Inl refreshError, s3) \<Rightarrow>
                         (Inl session_expired_error,
                          s3\<lparr>jar := removeAuthTokens (jar s3)\<rparr>)))))"
| "ensureValidToken pf net s =
     (case (if isRefreshing s then refreshPromise s else None) of
        Some outcome \<Rightarrow> (join_refresh outcome, snd (finish_refresh pf outcome s))
      | None \<Rightarrow>
          (case getRefreshToken (jar s) (clock s) of
             None \<Rightarrow> (Inl no_refresh_token_error, s)
           | Some refreshTokenValue \<Rightarrow>
               if refreshTokenValue = [] \<or> \<not> isRefreshTokenValid pf (jar s) (clock s)
               then (Inl no_refresh_token_error, s)
               else
                 (case request pf net ''/auth/refresh'' (refresh_options refreshTokenValue) True
                         (s\<lparr>isRefreshing := True\<rparr>) of
                    (outcome, s2) \<Rightarrow>
                      finish_refresh pf outcome (s2\<lparr>refreshPromise := Some outcome\<rparr>))))"
  by pat_completeness auto
termination
  by (relation "measure (\<lambda>x. case x of
           Inl (pf, net, endpoint, options, isRetry, s) \<Rightarrow>
             (if protected_endpoint endpoint then (if isRetry then 2 else 3) else 0)
         | Inr (pf, net, s) \<Rightarrow> 1)")
     (auto simp: protected_endpoint_def handle_response_def
           split: fetch_result.splits sum.splits if_splits)

declare request.simps [simp del] ensureValidToken.simps [simp del]



definition refreshToken ::
  "platform \<Rightarrow> network \<Rightarrow> (ApiError + jsval) client
    \<Rightarrow> (ApiError + jsval) \<times> (ApiError + jsval) client" where
  "refreshToken pf net s =
     (case getRefreshToken (jar s) (clock s) of
        None \<Rightarrow> (Inl no_refresh_token_error, s)
      | Some refreshTokenValue \<Rightarrow>
          if refreshTokenValue = [] \<or> \<not> isRefreshTokenValid pf (jar s) (clock s)
          then (Inl no_refresh_token_error, s)
          else
            (case request pf net ''/auth/refresh'' (refresh_options refreshTokenValue) True s of
               (Inl e, s1) \<Rightarrow> (Inl e, s1)
             | (Inr response, s1) \<Rightarrow>
                 if truthy (get_prop response ''success'') \<and> truthy (get_prop response ''data'')
                 then (Inr response, store_tokens pf (get_prop response ''data'') s1)
                 else (Inr response, s1)))"

text \<open>
  The check that \<open>request\<close> makes before it calls \<open>fetch\<close>, on its own: on a protected
  endpoint with an access token that is absent, expired or expiring soon, renew first; if
  the renewal fails, remove both tokens and fail.
\<close>

definition precheck ::
  "platform \<Rightarrow> network \<Rightarrow> string \<Rightarrow> (ApiError + jsval) client
    \<Rightarrow> (ApiError + unit) \<times> (ApiError + jsval) client" where
  "precheck pf net endpoint s =
     (if protected_endpoint endpoint
         \<and> isTokenExpiredOrExpiringSoon pf (clock s) (getAuthToken (jar s) (clock s))
      then (case ensureValidToken pf net s of
              (Inl refreshError, s1) \<Rightarrow>
                (Inl session_expired_error, s1\<lparr>jar := removeAuthTokens (jar s1)\<rparr>)
            | (Inr u, s1) \<Rightarrow> (Inr (), s1))
      else (Inr (), s))"

text \<open>
  The errors that tell the caller that the session is over: status 401 with one of the
  two token codes.
\<close>

definition session_expired_class :: "ApiError \<Rightarrow> bool" where
  "session_expired_class e =
     (statusCode e = 401 \<and> (code e = INVALID_TOKEN \<or> code e = TOKEN_EXPIRED))"

text \<open>The number of calls of \<open>fetch\<close> made to a URL.\<close>

definition calls_to :: "string \<Rightarrow> 'p client \<Rightarrow> nat" where
  "calls_to u s = length (filter (\<lambda>q. url q = u) (sent s))"

text \<open>
  The two cookies when both writes of one \<open>write_pair\<close> at time \<open>t\<close> succeed, storing the
  texts \<open>a\<close> and \<open>r\<close>.
\<close>

definition token_pair :: "string \<Rightarrow> string \<Rightarrow> int \<Rightarrow> cookies" where
  "token_pair a r t =
     \<lparr>auth_token = Some \<lparr>cvalue = a, expires = t + 1000 * (60 * 15)\<rparr>,
      refresh_token = Some \<lparr>cvalue = r, expires = t + 1000 * (60 * 60 * 24 * 90)\<rparr>\<rparr>"



section \<open>Several callers of ensureValidToken\<close>

text \<open>
  Callers run one at a time and give way only at an \<open>await\<close>. A call of
  \<open>ensureValidToken\<close> runs up to its first \<open>await\<close> in one piece: it joins the renewal in
  flight, or fails for want of a refresh token, or sends the renewal request and waits for
  it. The promise of a renewal is named by the position of its request in \<open>sent\<close>.
  \<open>in_flight\<close> lists the renewal requests sent and not yet answered.
\<close>

datatype promise = Pending | Settled "ApiError + jsval"

datatype caller = NotCalled | Started nat | Joined nat | Returned "ApiError + unit"

record coordinator =
  shared :: "nat client"
  promises :: "nat \<Rightarrow> promise"
  in_flight :: "nat list"
  callers :: "nat \<Rightarrow> caller"

text \<open>
  What can happen next: caller \<open>t\<close> calls \<open>ensureValidToken\<close>; the answer to request \<open>p\<close>
  arrives and settles its promise; the continuation of caller \<open>t\<close> runs (it does nothing
  while the promise it awaits is pending); time passes. The continuations may run in any
  order, which includes the order of registration that the browser follows.
\<close>

datatype event = Call nat | Deliver nat | Resume nat | Tick nat

definition call_ensureValidToken :: "platform \<Rightarrow> nat \<Rightarrow> coordinator \<Rightarrow> coordinator" where
  "call_ensureValidToken pf t c =
     (let s = shared c in
      case (if isRefreshing s then refreshPromise s else None) of
        Some p \<Rightarrow> c\<lparr>callers := (callers c)(t := Joined p)\<rparr>
      | None \<Rightarrow>
          (case getRefreshToken (jar s) (clock s) of
             None \<Rightarrow> c\<lparr>callers := (callers c)(t := Returned (Inl no_refresh_token_error))\<rparr>
           | Some refreshTokenValue \<Rightarrow>
               if refreshTokenValue = [] \<or> \<not> isRefreshTokenValid pf (jar s) (clock s)
               then c\<lparr>callers := (callers c)(t := Returned (Inl no_refresh_token_error))\<rparr>
               else
                 let s1 = s\<lparr>isRefreshing := True\<rparr>;
                     p = length (sent s1);
                     rq = build_config s1 ''/auth/refresh'' (refresh_options refreshTokenValue)
                 in c\<lparr>shared := s1\<lparr>sent := sent s1 @ [rq], refreshPromise := Some p\<rparr>,
                      promises := (promises c)(p := Pending),
                      in_flight := in_flight c @ [p],
                      callers := (callers c)(t := Started p)\<rparr>))"

definition deliver :: "platform \<Rightarrow> network \<Rightarrow> nat \<Rightarrow> coordinator \<Rightarrow> coordinator" where
  "deliver pf net p c =
     (if p \<in> set (in_flight c) \<and> p < length (sent (shared c)) then
        (case net p (sent (shared c) ! p) of
           (elapsed, response) \<Rightarrow>
             (case handle_response pf ''/auth/refresh'' True response of
                Some outcome \<Rightarrow>
                  c\<lparr>shared := (shared c)\<lparr>clock := clock (shared c) + int elapsed\<rparr>,
                    promises := (promises c)(p := Settled outcome),
                    in_flight := removeAll p (in_flight c)\<rparr>
              | None \<Rightarrow> c))
      else c)"

definition resume :: "platform \<Rightarrow> nat \<Rightarrow> coordinator \<Rightarrow> coordinator" where
  "resume pf t c =
     (case callers c t of
        Started p \<Rightarrow>
          (case promises c p of
             Pending \<Rightarrow> c
           | Settled outcome \<Rightarrow>
               (case finish_refresh pf outcome (shared c) of
                  (r, s') \<Rightarrow> c\<lparr>shared := s', callers := (callers c)(t := Returned r)\<rparr>))
      | Joined p \<Rightarrow>
          (case promises c p of
             Pending \<Rightarrow> c
           | Settled outcome \<Rightarrow> c\<lparr>callers := (callers c)(t := Returned (join_refresh outcome))\<rparr>)
      | _ \<Rightarrow> c)"

definition step :: "platform \<Rightarrow> network \<Rightarrow> event \<Rightarrow> coordinator \<Rightarrow> coordinator" where
  "step pf net e c =
     (case e of
        Call t \<Rightarrow> if callers c t = NotCalled then call_ensureValidToken pf t c else c
      | Deliver p \<Rightarrow> deliver pf net p c
      | Resume t \<Rightarrow> resume pf t c
      | Tick n \<Rightarrow> c\<lparr>shared := (shared c)\<lparr>clock := clock (shared c) + int n\<rparr>\<rparr>)"

fun run :: "platform \<Rightarrow> network \<Rightarrow> event list \<Rightarrow> coordinator \<Rightarrow> coordinator" where
  "run pf net [] c = c"
| "run pf net (e # es) c = run pf net es (step pf net e c)"

text \<open>
  A client with no renewal in flight and no caller.
\<close>

definition idle_coordinator :: "string \<Rightarrow> cookies \<Rightarrow> int \<Rightarrow> http_request list \<Rightarrow> coordinator" where
  "idle_coordinator base ck now past =
     \<lparr>shared = \<lparr>baseURL = base, isRefreshing = False, refreshPromise = None, jar = ck,
                clock = now, sent = past\<rparr>,
      promises = (\<lambda>p. Pending), in_flight = [], callers = (\<lambda>t. NotCalled)\<rparr>"

text \<open>
  The invariant: a request in flight is the one \<open>refreshPromise\<close> names, with
  \<open>isRefreshing\<close> set and its promise pending; the caller that started a renewal and has
  not resumed is unique and its promise is the one \<open>refreshPromise\<close> names.
\<close>

definition single_flight :: "coordinator \<Rightarrow> bool" where
  "single_flight c =
     ((\<forall>p \<in> set (in_flight c).
         isRefreshing (shared c) \<and> refreshPromise (shared c) = Some p \<and> promises c p = Pending)
      \<and> distinct (in_flight c)
      \<and> (\<forall>t p. callers c t = Started p \<longrightarrow>
            isRefreshing (shared c) \<and> refreshPromise (shared c) = Some p)
      \<and> (\<forall>t t' p p'. callers c t = Started p \<and> callers c t' = Started p' \<longrightarrow> t = t'))"

section \<open>Example inputs\<close>

text \<open>
  A platform on which the payload segment \<open>p\<close> decodes to \<open>{"exp": 1000}\<close> and nothing
  else decodes, and on which every string can be stored in a cookie but one.
\<close>

definition unwritable_text :: string where
  "unwritable_text = ''lone surrogate''"

definition demo_platform :: platform where
  "demo_platform =
     \<lparr>parse_segment = (\<lambda>s. if s = ''p'' then Some (JObj [(''exp'', JNum 1000)]) else None),
      number_of = (\<lambda>v. None),
      cookie_text =
        (\<lambda>v. case v of JStr t \<Rightarrow> if t = unwritable_text then None else Some t
              | _ \<Rightarrow> Some []),
      null_read_message = ''Cannot read properties of null''\<rparr>"

definition demo_jwt :: string where
  "demo_jwt = ''h.p.s''"

text \<open>A signed-in store holding an access token and no refresh token.\<close>

definition access_only :: "(string, string) auth_state \<times> cookies" where
  "access_only =
     (\<lparr>user = Some ''u'', organization = Some ''o'', isAuthenticated = True, isLoading = False,
       error = None\<rparr>,
      \<lparr>auth_token = Some \<lparr>cvalue = demo_jwt, expires = 900000\<rparr>, refresh_token = None\<rparr>)"

text \<open>A signed-out store holding only a refresh token, one that decodes and one that does not.\<close>

definition refresh_only :: "(string, string) auth_state \<times> cookies" where
  "refresh_only =
     (\<lparr>user = None, organization = None, isAuthenticated = False, isLoading = False,
       error = None\<rparr>,
      \<lparr>auth_token = None,
       refresh_token = Some \<lparr>cvalue = demo_jwt, expires = 7776000000\<rparr>\<rparr>)"

definition undecodable_refresh :: "(string, string) auth_state \<times> cookies" where
  "undecodable_refresh =
     (\<lparr>user = None, organization = None, isAuthenticated = False, isLoading = False,
       error = None\<rparr>,
      \<lparr>auth_token = None,
       refresh_token = Some \<lparr>cvalue = ''opaque'', expires = 7776000000\<rparr>\<rparr>)"

definition no_options :: request_init where
  "no_options = \<lparr>rmethod = None, rbody = None\<rparr>"

text \<open>A client whose two cookies hold the example token, at time 0, and one without cookies.\<close>

definition signed_in :: "(ApiError + jsval) client" where
  "signed_in =
     \<lparr>baseURL = ''http://localhost:8000'', isRefreshing = False, refreshPromise = None,
      jar = \<lparr>auth_token = Some \<lparr>cvalue = demo_jwt, expires = 900000\<rparr>,
             refresh_token = Some \<lparr>cvalue = demo_jwt, expires = 7776000000\<rparr>\<rparr>,
      clock = 0, sent = []\<rparr>"

text \<open>A network that answers every call with a 401 whose body is not JSON.\<close>

definition html_401 :: network where
  "html_401 = (\<lambda>n rq. (5, HttpResponse 401 ''Unauthorized'' (Inl ''Unexpected token <'')))"

definition signed_out :: "(ApiError + jsval) client" where
  "signed_out =
     \<lparr>baseURL = ''http://localhost:8000'', isRefreshing = False, refreshPromise = None,
      jar = \<lparr>auth_token = None, refresh_token = None\<rparr>, clock = 0, sent = []\<rparr>"

text \<open>A body that declares success and carries an error payload.\<close>

definition success_with_error :: jsval where
  "success_with_error =
     JObj [(''success'', JBool True),
           (''error'', JObj [(''code'', JStr ''INTERNAL_ERROR''), (''message'', JStr ''boom'')])]"

text \<open>A network that answers every call with status 200 and the given body.\<close>

definition reply_200 :: "jsval \<Rightarrow> network" where
  "reply_200 b = (\<lambda>n rq. (5, HttpResponse 200 ''OK'' (Inr b)))"

text \<open>
  The error envelope of a 401, the body of a successful renewal, and two networks: one on
  which only the renewal endpoint works, one that answers every call with the 401.
\<close>

definition unauthorized_body :: jsval where
  "unauthorized_body =
     JObj [(''success'', JBool False),
           (''error'', JObj [(''code'', JStr ''UNAUTHORIZED''), (''message'', JStr ''no'')])]"

definition tokens_body :: jsval where
  "tokens_body =
     JObj [(''success'', JBool True),
           (''data'', JObj [(''accessToken'', JStr demo_jwt), (''refreshToken'', JStr demo_jwt)])]"

definition only_refresh_works :: network where
  "only_refresh_works =
     (\<lambda>n rq. if url rq = ''http://localhost:8000/auth/refresh''
              then (5, HttpResponse 200 ''OK'' (Inr tokens_body))
              else (5, HttpResponse 401 ''Unauthorized'' (Inr unauthorized_body)))"

text \<open>
  The signed-in client after the first call to \<open>/devices\<close> was answered, and after the
  renewal that follows on the first network.
\<close>

definition after_401 :: "(ApiError + jsval) client" where
  "after_401 = signed_in\<lparr>clock := 5, sent := [build_config signed_in ''/devices'' no_options]\<rparr>"

definition after_renewal :: "(ApiError + jsval) client" where
  "after_renewal =
     \<lparr>baseURL = ''http://localhost:8000'', isRefreshing = False, refreshPromise = None,
      jar = token_pair demo_jwt demo_jwt 10,
      clock = 10,
      sent = [build_config signed_in ''/devices'' no_options,
              build_config after_401 ''/auth/refresh'' (refresh_options demo_jwt)]\<rparr>"

definition always_unauthorized :: network where
  "always_unauthorized = (\<lambda>n rq. (5, HttpResponse 401 ''Unauthorized'' (Inr unauthorized_body)))"




text \<open>
  Cookies holding only a valid refresh token; a renewal answer that declares success and
  has no data; two callers calling one after the other, and the same followed by the
  answer and the two continuations.
\<close>

definition cookies_only_refresh :: cookies where
  "cookies_only_refresh = snd refresh_only"

definition success_without_data :: jsval where
  "success_without_data = JObj [(''success'', JBool True)]"

definition two_callers :: "event list" where
  "two_callers = [Call 0, Call 1]"

definition two_callers_resolved :: "event list" where
  "two_callers_resolved = [Call 0, Call 1, Deliver 0, Resume 0, Resume 1]"

text \<open>
  A network on which the renewal endpoint hands out tokens that do not decode, the client
  after the renewal on it, and after the retry that follows; and a network on which only
  the access token handed out does not decode, with the client after the second renewal
  that the retry's check makes on it.
\<close>

definition opaque_tokens_body :: jsval where
  "opaque_tokens_body =
     JObj [(''success'', JBool True),
           (''data'', JObj [(''accessToken'', JStr ''opaque''), (''refreshToken'', JStr ''opaque'')])]"

definition opaque_refresh :: network where
  "opaque_refresh =
     (\<lambda>n rq. if url rq = ''http://localhost:8000/auth/refresh''
              then (5, HttpResponse 200 ''OK'' (Inr opaque_tokens_body))
              else (5, HttpResponse 401 ''Unauthorized'' (Inr unauthorized_body)))"

definition after_opaque_renewal :: "(ApiError + jsval) client" where
  "after_opaque_renewal =
     \<lparr>baseURL = ''http://localhost:8000'', isRefreshing = False, refreshPromise = None,
      jar = token_pair ''opaque'' ''opaque'' 10,
      clock = 10,
      sent = [build_config signed_in ''/devices'' no_options,
              build_config after_401 ''/auth/refresh'' (refresh_options demo_jwt)]\<rparr>"

definition after_opaque_retry :: "(ApiError + jsval) client" where
  "after_opaque_retry =
     after_opaque_renewal\<lparr>jar := \<lparr>auth_token = None, refresh_token = None\<rparr>\<rparr>"

definition short_access_body :: jsval where
  "short_access_body =
     JObj [(''success'', JBool True),
           (''data'', JObj [(''accessToken'', JStr ''opaque''), (''refreshToken'', JStr demo_jwt)])]"

definition short_access :: network where
  "short_access =
     (\<lambda>n rq. if url rq = ''http://localhost:8000/auth/refresh''
              then (5, HttpResponse 200 ''OK'' (Inr short_access_body))
              else (5, HttpResponse 401 ''Unauthorized'' (Inr unauthorized_body)))"

definition after_second_renewal :: "(ApiError + jsval) client" where
  "after_second_renewal =
     \<lparr>baseURL = ''http://localhost:8000'', isRefreshing = False, refreshPromise = None,
      jar = token_pair ''opaque'' demo_jwt 15,
      clock = 15,
      sent = [build_config signed_in ''/devices'' no_options,
              build_config after_401 ''/auth/refresh'' (refresh_options demo_jwt),
              build_config (after_opaque_renewal\<lparr>jar := token_pair ''opaque'' demo_jwt 10\<rparr>)
                ''/auth/refresh'' (refresh_options demo_jwt)]\<rparr>"



section \<open>Properties of the token inspector\<close>

lemma decode_empty: "decodeJWTPayload pf [] = JNull"
  by (simp add: decodeJWTPayload_def)

lemma falsy_exp_number:
  "\<not> truthy p \<or> \<not> truthy (get_prop p ''exp'') \<Longrightarrow>
     to_number pf (get_prop p ''exp'') = None \<or> to_number pf (get_prop p ''exp'') = Some 0"
  apply (cases p; simp)
  subgoal for kvs by (cases "get_prop (JObj kvs) ''exp''"; simp)
  done

lemma demo_expiry: "expiry_claim demo_platform demo_jwt = Some 1000"
  by (simp add: expiry_claim_def decodeJWTPayload_def demo_platform_def demo_jwt_def
      replace_char_def)

text \<open>
  C7. With the clock at or after the epoch, \<open>isTokenExpiredOrExpiringSoon\<close> is true for an
  absent token and for a token that does not decode; for a token with expiration claim
  \<open>e\<close> it is true exactly when \<open>e \<le> now + 120\<close> seconds, so true at \<open>now + 119\<close> and
  earlier and false at \<open>now + 121\<close> and later.
\<close>

theorem expiring_soon_boundary:
  assumes "0 \<le> now"
  shows "isTokenExpiredOrExpiringSoon pf now None
    \<and> (decodeJWTPayload pf t = JNull \<longrightarrow> isTokenExpiredOrExpiringSoon pf now (Some t))
    \<and> (expiry_claim pf t = Some e \<longrightarrow>
         (isTokenExpiredOrExpiringSoon pf now (Some t) \<longleftrightarrow> e \<le> now div 1000 + 120))
    \<and> (expiry_claim pf t = Some e \<and> e \<le> now div 1000 + 119 \<longrightarrow>
          isTokenExpiredOrExpiringSoon pf now (Some t))
    \<and> (expiry_claim pf t = Some e \<and> now div 1000 + 121 \<le> e \<longrightarrow>
          \<not> isTokenExpiredOrExpiringSoon pf now (Some t))"
proof -
  have cur: "0 \<le> now div 1000" using assms by simp
  have a: "isTokenExpiredOrExpiringSoon pf now None"
    by (simp add: isTokenExpiredOrExpiringSoon_def)
  have b: "decodeJWTPayload pf t = JNull \<Longrightarrow> isTokenExpiredOrExpiringSoon pf now (Some t)"
    by (simp add: isTokenExpiredOrExpiringSoon_def)
  have c: "isTokenExpiredOrExpiringSoon pf now (Some t) \<longleftrightarrow> e \<le> now div 1000 + 120"
    if h: "expiry_claim pf t = Some e"
  proof (cases "t = [] \<or> \<not> truthy (decodeJWTPayload pf t)
                 \<or> \<not> truthy (get_prop (decodeJWTPayload pf t) ''exp'')")
    case True
    then have f: "\<not> truthy (decodeJWTPayload pf t)
                   \<or> \<not> truthy (get_prop (decodeJWTPayload pf t) ''exp'')"
      by (auto simp: decode_empty)
    from falsy_exp_number[OF f, of pf] h have "e = 0" by (simp add: expiry_claim_def)
    moreover from f have "isTokenExpiredOrExpiringSoon pf now (Some t)"
      by (auto simp: isTokenExpiredOrExpiringSoon_def Let_def)
    ultimately show ?thesis using cur by simp
  next
    case False
    then show ?thesis using h
      by (simp add: isTokenExpiredOrExpiringSoon_def Let_def js_le_def expiry_claim_def)
  qed
  from a b c show ?thesis by auto
qed

theorem expiring_soon_boundary_witness:
  "(0::int) \<le> 881000
   \<and> decodeJWTPayload demo_platform ''opaque'' = JNull
   \<and> isTokenExpiredOrExpiringSoon demo_platform 881000 (Some ''opaque'')
   \<and> expiry_claim demo_platform demo_jwt = Some 1000
   \<and> isTokenExpiredOrExpiringSoon demo_platform 881000 (Some demo_jwt)
   \<and> isTokenExpiredOrExpiringSoon demo_platform 880000 (Some demo_jwt)
   \<and> \<not> isTokenExpiredOrExpiringSoon demo_platform 879000 (Some demo_jwt)"
proof -
  have d: "decodeJWTPayload demo_platform ''opaque'' = JNull"
    by (simp add: decodeJWTPayload_def)
  show ?thesis
    using d demo_expiry
      expiring_soon_boundary [where now = 881000 and pf = demo_platform and t = "''opaque''"]
      expiring_soon_boundary [where now = 881000 and pf = demo_platform and t = demo_jwt
        and e = 1000]
      expiring_soon_boundary [where now = 880000 and pf = demo_platform and t = demo_jwt
        and e = 1000]
      expiring_soon_boundary [where now = 879000 and pf = demo_platform and t = demo_jwt
        and e = 1000]
    by simp
qed

text \<open>
  C8. With the clock at or after the epoch, \<open>isRefreshTokenValid\<close> holds exactly when a
  refresh token is stored and its expiration claim is strictly greater than the current
  second; a claim equal to the current second is invalid, and a token that does not
  decode is invalid (the function returns \<open>false\<close>, it raises nothing).
\<close>

theorem refresh_valid_iff:
  assumes "0 \<le> now"
  shows "(isRefreshTokenValid pf ck now \<longleftrightarrow>
           (\<exists>t e. getRefreshToken ck now = Some t \<and> expiry_claim pf t = Some e
                  \<and> now div 1000 < e))
    \<and> (getRefreshToken ck now = Some t \<and> expiry_claim pf t = Some (now div 1000) \<longrightarrow>
          \<not> isRefreshTokenValid pf ck now)
    \<and> (getRefreshToken ck now = Some t \<and> decodeJWTPayload pf t = JNull \<longrightarrow>
          \<not> isRefreshTokenValid pf ck now)"
proof -
  have cur: "0 \<le> now div 1000" using assms by simp
  have main: "isRefreshTokenValid pf ck now \<longleftrightarrow>
           (\<exists>t e. getRefreshToken ck now = Some t \<and> expiry_claim pf t = Some e
                  \<and> now div 1000 < e)"
  proof (cases "getRefreshToken ck now")
    case None
    then show ?thesis by (simp add: isRefreshTokenValid_def)
  next
    case (Some r)
    show ?thesis
    proof (cases "r = [] \<or> \<not> truthy (decodeJWTPayload pf r)
                   \<or> \<not> truthy (get_prop (decodeJWTPayload pf r) ''exp'')")
      case True
      then have f: "\<not> truthy (decodeJWTPayload pf r)
                     \<or> \<not> truthy (get_prop (decodeJWTPayload pf r) ''exp'')"
        by (auto simp: decode_empty)
      from falsy_exp_number[OF f, of pf]
      have "\<not> (\<exists>e. expiry_claim pf r = Some e \<and> now div 1000 < e)"
        using cur by (auto simp: expiry_claim_def)
      moreover from f Some have "\<not> isRefreshTokenValid pf ck now"
        by (auto simp: isRefreshTokenValid_def Let_def)
      ultimately show ?thesis using Some by simp
    next
      case False
      then show ?thesis using Some
        by (auto simp: isRefreshTokenValid_def Let_def js_gt_def expiry_claim_def
            split: option.splits)
    qed
  qed
  have eq: "getRefreshToken ck now = Some t \<and> expiry_claim pf t = Some (now div 1000) \<longrightarrow>
          \<not> isRefreshTokenValid pf ck now"
    using main by auto
  have nul: "getRefreshToken ck now = Some t \<and> decodeJWTPayload pf t = JNull \<longrightarrow>
          \<not> isRefreshTokenValid pf ck now"
    by (auto simp: isRefreshTokenValid_def)
  from main eq nul show ?thesis by blast
qed

theorem refresh_valid_iff_witness:
  "(0::int) \<le> 999000
   \<and> getRefreshToken (snd refresh_only) 999000 = Some demo_jwt
   \<and> expiry_claim demo_platform demo_jwt = Some 1000
   \<and> isRefreshTokenValid demo_platform (snd refresh_only) 999000
   \<and> \<not> isRefreshTokenValid demo_platform (snd refresh_only) 1000000
   \<and> \<not> isRefreshTokenValid demo_platform (snd undecodable_refresh) 999000"
proof -
  have g: "getRefreshToken (snd refresh_only) 999000 = Some demo_jwt"
          "getRefreshToken (snd refresh_only) 1000000 = Some demo_jwt"
          "getRefreshToken (snd undecodable_refresh) 999000 = Some ''opaque''"
    by (simp_all add: getRefreshToken_def getCookie_def refresh_only_def
        undecodable_refresh_def)
  have d: "decodeJWTPayload demo_platform ''opaque'' = JNull"
    by (simp add: decodeJWTPayload_def)
  then have n: "expiry_claim demo_platform ''opaque'' = None"
    by (simp add: expiry_claim_def)
  show ?thesis
    using g d n demo_expiry
      refresh_valid_iff [where now = 999000 and pf = demo_platform and ck = "snd refresh_only"
        and t = demo_jwt]
      refresh_valid_iff [where now = 1000000 and pf = demo_platform and ck = "snd refresh_only"
        and t = demo_jwt]
      refresh_valid_iff [where now = 999000 and pf = demo_platform
        and ck = "snd undecodable_refresh" and t = "''opaque''"]
    by simp
qed

section \<open>Properties of the authentication check\<close>

lemma checkAuth_result: "fst (checkAuth pf now s) = isRefreshTokenValid pf (snd s) now"
  by (simp add: checkAuth_def Let_def)

lemma checkAuth_state:
  "snd (checkAuth pf now s) =
     (if \<not> isRefreshTokenValid pf (snd s) now \<and> isAuthenticated (fst s) then clearAuth s else s)"
  by (simp add: checkAuth_def Let_def)

lemma access_only_tokens:
  "getAuthToken (snd access_only) 0 = Some demo_jwt"
  "\<not> isRefreshTokenValid demo_platform (snd access_only) 0"
  by (simp_all add: access_only_def getAuthToken_def getCookie_def isRefreshTokenValid_def
      getRefreshToken_def)

text \<open>
  C3, as stated, fails: with an access token present and no refresh token,
  \<open>checkAuth\<close> returns \<open>false\<close>, while "a valid refresh token exists or an access token
  is present" is true.
\<close>

theorem checkAuth_access_only_counterexample:
  "\<not> (fst (checkAuth demo_platform 0 access_only) \<longleftrightarrow>
        (isRefreshTokenValid demo_platform (snd access_only) 0
         \<or> getAuthToken (snd access_only) 0 \<noteq> None))"
  using access_only_tokens by (simp add: checkAuth_result)

text \<open>
  C3, amended. \<open>checkAuth\<close> returns \<open>true\<close> exactly when a valid refresh token exists,
  whatever the access token is. Without a valid refresh token it returns \<open>false\<close> and, if
  the store was authenticated, clears the session (both cookies removed, user and
  organization dropped); in every other case it changes nothing.
\<close>

theorem checkAuth_refresh_only:
  "(fst (checkAuth pf now s) \<longleftrightarrow> isRefreshTokenValid pf (snd s) now)
   \<and> (\<not> isRefreshTokenValid pf (snd s) now \<and> isAuthenticated (fst s) \<longrightarrow>
        \<not> fst (checkAuth pf now s)
        \<and> snd (checkAuth pf now s) = clearAuth s
        \<and> \<not> isAuthenticated (fst (snd (checkAuth pf now s)))
        \<and> getAuthToken (snd (snd (checkAuth pf now s))) now = None
        \<and> getRefreshToken (snd (snd (checkAuth pf now s))) now = None)
   \<and> (isRefreshTokenValid pf (snd s) now \<or> \<not> isAuthenticated (fst s) \<longrightarrow>
        snd (checkAuth pf now s) = s)"
  by (cases s)
     (simp add: checkAuth_result checkAuth_state clearAuth_def removeAuthTokens_def
        getAuthToken_def getRefreshToken_def getCookie_def)

theorem checkAuth_refresh_only_witness:
  "\<not> isRefreshTokenValid demo_platform (snd access_only) 0
   \<and> isAuthenticated (fst access_only)
   \<and> \<not> fst (checkAuth demo_platform 0 access_only)
   \<and> snd (checkAuth demo_platform 0 access_only) = clearAuth access_only
   \<and> isRefreshTokenValid demo_platform (snd refresh_only) 0
   \<and> fst (checkAuth demo_platform 0 refresh_only)
   \<and> snd (checkAuth demo_platform 0 refresh_only) = refresh_only"
proof -
  have a: "isAuthenticated (fst access_only)" by (simp add: access_only_def)
  have g: "getRefreshToken (snd refresh_only) 0 = Some demo_jwt"
    by (simp add: getRefreshToken_def getCookie_def refresh_only_def)
  have v: "isRefreshTokenValid demo_platform (snd refresh_only) 0"
    using g
    by (simp add: isRefreshTokenValid_def Let_def js_gt_def decodeJWTPayload_def
        demo_platform_def demo_jwt_def replace_char_def)
  show ?thesis
    using a v access_only_tokens
      checkAuth_refresh_only [of demo_platform 0 access_only]
      checkAuth_refresh_only [of demo_platform 0 refresh_only]
    by simp
qed

section \<open>Properties of the request gateway\<close>

lemma request_unfold:
  "request pf net endpoint options isRetry s =
     (case precheck pf net endpoint s of
        (Inl e, s1) \<Rightarrow> (Inl e, s1)
      | (Inr u, s1) \<Rightarrow>
          (case fetch net (build_config s1 endpoint options) s1 of
             (response, s2) \<Rightarrow>
               (case handle_response pf endpoint isRetry response of
                  Some r \<Rightarrow> (r, s2)
                | None \<Rightarrow>
                    (case ensureValidToken pf net s2 of
                       (Inr u, s3) \<Rightarrow> request pf net endpoint options True s3
                     | (Inl refreshError, s3) \<Rightarrow>
                         (Inl session_expired_error,
                          s3\<lparr>jar := removeAuthTokens (jar s3)\<rparr>)))))"
  by (subst request.simps) (simp add: precheck_def)

lemma handle_response_None:
  "handle_response pf endpoint isRetry fr = None \<longleftrightarrow>
     (\<exists>txt b. fr = HttpResponse 401 txt (Inr b)) \<and> \<not> isRetry \<and> protected_endpoint endpoint"
  by (auto simp: handle_response_def split: fetch_result.splits sum.splits)

lemma request_after_precheck:
  assumes "precheck pf net endpoint s = (Inr (), s1)"
    and "net (length (sent s1)) (build_config s1 endpoint options) = (d, fr)"
    and "handle_response pf endpoint isRetry fr = Some r"
  shows "request pf net endpoint options isRetry s =
           (r, s1\<lparr>clock := clock s1 + int d, sent := sent s1 @ [build_config s1 endpoint options]\<rparr>)"
  using assms by (simp add: request_unfold fetch_def)

lemma request_renew:
  assumes "precheck pf net endpoint s = (Inr (), s1)"
    and "net (length (sent s1)) (build_config s1 endpoint options) = (d, fr)"
    and "handle_response pf endpoint isRetry fr = None"
    and "s2 = s1\<lparr>clock := clock s1 + int d, sent := sent s1 @ [build_config s1 endpoint options]\<rparr>"
  shows "request pf net endpoint options isRetry s =
           (case ensureValidToken pf net s2 of
              (Inr u, s3) \<Rightarrow> request pf net endpoint options True s3
            | (Inl refreshError, s3) \<Rightarrow>
                (Inl session_expired_error, s3\<lparr>jar := removeAuthTokens (jar s3)\<rparr>))"
  using assms by (simp add: request_unfold fetch_def)

lemma ensureValidToken_no_token:
  assumes "\<not> isRefreshing s" and "\<not> isRefreshTokenValid pf (jar s) (clock s)"
  shows "ensureValidToken pf net s = (Inl no_refresh_token_error, s)"
  using assms by (simp add: ensureValidToken.simps split: option.splits)

lemma demo_not_expiring:
  "\<not> isTokenExpiredOrExpiringSoon demo_platform 0 (Some demo_jwt)"
  by (simp add: isTokenExpiredOrExpiringSoon_def decodeJWTPayload_def demo_platform_def
      demo_jwt_def replace_char_def js_le_def)

lemma signed_in_precheck: "precheck demo_platform net endpoint signed_in = (Inr (), signed_in)"
  using demo_not_expiring
  by (simp add: precheck_def signed_in_def getAuthToken_def getCookie_def)

text \<open>
  C10. When the response is not ok and its body is not JSON, \<open>request\<close> fails at once with
  the network-error code and the status of the response; the only call of \<open>fetch\<close> after
  the check before the request is the one that got this response, and the cookies are
  untouched. So a 401 with such a body starts no renewal and no retry.
\<close>

theorem non_json_error_body:
  assumes "precheck pf net endpoint s = (Inr (), sa)"
    and "net (length (sent sa)) (build_config sa endpoint options) = (d, HttpResponse st stext (Inl msg))"
    and "\<not> (200 \<le> st \<and> st \<le> 299)"
  shows "request pf net endpoint options isRetry s =
           (Inl (ApiError NETWORK_ERROR
                   (JStr (if stext \<noteq> [] then stext else ''Network error occurred'')) st JUndefined),
            sa\<lparr>clock := clock sa + int d,
               sent := sent sa @ [build_config sa endpoint options]\<rparr>)
         \<and> sent (snd (request pf net endpoint options isRetry s))
             = sent sa @ [build_config sa endpoint options]
         \<and> jar (snd (request pf net endpoint options isRetry s)) = jar sa"
proof -
  have "handle_response pf endpoint isRetry (HttpResponse st stext (Inl msg)) =
          Some (Inl (ApiError NETWORK_ERROR
                   (JStr (if stext \<noteq> [] then stext else ''Network error occurred'')) st JUndefined))"
    using assms(3) by (simp add: handle_response_def)
  from request_after_precheck[OF assms(1) assms(2) this] show ?thesis by simp
qed

theorem non_json_error_body_witness:
  "precheck demo_platform html_401 ''/devices'' signed_in = (Inr (), signed_in)
   \<and> html_401 (length (sent signed_in)) (build_config signed_in ''/devices'' no_options)
       = (5, HttpResponse 401 ''Unauthorized'' (Inl ''Unexpected token <''))
   \<and> \<not> (200 \<le> (401::int) \<and> (401::int) \<le> 299)
   \<and> fst (request demo_platform html_401 ''/devices'' no_options False signed_in)
       = Inl (ApiError NETWORK_ERROR (JStr ''Unauthorized'') 401 JUndefined)
   \<and> length (sent (snd (request demo_platform html_401 ''/devices'' no_options False signed_in))) = 1"
proof -
  have n: "html_401 (length (sent signed_in)) (build_config signed_in ''/devices'' no_options)
       = (5, HttpResponse 401 ''Unauthorized'' (Inl ''Unexpected token <''))"
    by (simp add: html_401_def)
  have r: "\<not> (200 \<le> (401::int) \<and> (401::int) \<le> 299)" by simp
  have e: "sent signed_in = []" by (simp add: signed_in_def)
  show ?thesis
    using n r e signed_in_precheck[of html_401 "''/devices''"]
      non_json_error_body [where pf = demo_platform and net = html_401 and endpoint = "''/devices''"
        and s = signed_in and sa = signed_in and isRetry = False
        and options = no_options and d = 5 and st = 401
        and stext = "''Unauthorized''" and msg = "''Unexpected token <''"]
    by simp
qed

lemma check_body_cases:
  "(\<forall>v. check_body pf b st = Inr v \<longrightarrow> v = b \<and> (\<exists>flag. get_prop b ''success'' = JBool flag))
   \<and> ((\<forall>flag. get_prop b ''success'' \<noteq> JBool flag) \<longrightarrow>
        (\<exists>e. check_body pf b st = Inl e \<and> code e = NETWORK_ERROR))
   \<and> (get_prop b ''success'' = JBool False \<and> truthy (get_prop b ''error'') \<longrightarrow>
        check_body pf b st = Inl (error_of_payload (get_prop b ''error'') st))
   \<and> (get_prop b ''success'' = JBool True \<longrightarrow> check_body pf b st = Inr b)"
  by (cases "get_prop b ''success''")
     (auto simp: check_body_def nullish_def type_error_def split: if_splits)

text \<open>
  C4, amended. For an ok response, \<open>request\<close> returns a value only if the body is JSON and
  has a boolean \<open>success\<close> property, and then returns the body itself; a body that is not
  JSON, or has no boolean flag, fails with the network-error code. A body with
  \<open>success: false\<close> and an error payload fails with the error of the payload. A body with
  \<open>success: true\<close> is returned, whether or not it carries an error payload.
\<close>

theorem body_success_flag:
  assumes "precheck pf net endpoint s = (Inr (), sa)"
    and "net (length (sent sa)) (build_config sa endpoint options) = (d, HttpResponse st stext bd)"
    and "200 \<le> st \<and> st \<le> 299"
  shows "(\<forall>v. fst (request pf net endpoint options isRetry s) = Inr v \<longrightarrow>
            bd = Inr v \<and> (\<exists>flag. get_prop v ''success'' = JBool flag))
   \<and> ((\<forall>b flag. bd = Inr b \<longrightarrow> get_prop b ''success'' \<noteq> JBool flag) \<longrightarrow>
        (\<exists>e. fst (request pf net endpoint options isRetry s) = Inl e \<and> code e = NETWORK_ERROR))
   \<and> (\<forall>b. bd = Inr b \<and> get_prop b ''success'' = JBool False
            \<and> truthy (get_prop b ''error'') \<longrightarrow>
        fst (request pf net endpoint options isRetry s)
          = Inl (error_of_payload (get_prop b ''error'') st))
   \<and> (\<forall>b. bd = Inr b \<and> get_prop b ''success'' = JBool True \<longrightarrow>
        fst (request pf net endpoint options isRetry s) = Inr b)"
proof (cases bd)
  case (Inl msg)
  have "handle_response pf endpoint isRetry (HttpResponse st stext (Inl msg))
          = Some (Inl (ApiError NETWORK_ERROR (JStr msg) 0 JUndefined))"
    using assms(3) by (simp add: handle_response_def)
  from request_after_precheck[OF assms(1) assms(2)[unfolded Inl] this]
  have "fst (request pf net endpoint options isRetry s)
          = Inl (ApiError NETWORK_ERROR (JStr msg) 0 JUndefined)" by simp
  then show ?thesis using Inl by simp
next
  case (Inr b)
  have "handle_response pf endpoint isRetry (HttpResponse st stext (Inr b))
          = Some (check_body pf b st)"
    using assms(3) by (simp add: handle_response_def)
  from request_after_precheck[OF assms(1) assms(2)[unfolded Inr] this]
  have "fst (request pf net endpoint options isRetry s) = check_body pf b st" by simp
  then show ?thesis using check_body_cases[of pf b st] Inr by auto
qed

lemma success_with_error_props:
  "get_prop success_with_error ''success'' = JBool True"
  "truthy (get_prop success_with_error ''error'')"
  by (simp_all add: success_with_error_def)

theorem body_success_flag_witness:
  "precheck demo_platform (reply_200 success_with_error) ''/devices'' signed_in = (Inr (), signed_in)
   \<and> reply_200 success_with_error (length (sent signed_in))
        (build_config signed_in ''/devices'' no_options)
       = (5, HttpResponse 200 ''OK'' (Inr success_with_error))
   \<and> (200::int) \<le> 200 \<and> (200::int) \<le> 299
   \<and> get_prop success_with_error ''success'' = JBool True
   \<and> fst (request demo_platform (reply_200 success_with_error) ''/devices'' no_options False signed_in)
       = Inr success_with_error
   \<and> get_prop unauthorized_body ''success'' = JBool False
   \<and> truthy (get_prop unauthorized_body ''error'')
   \<and> fst (request demo_platform (reply_200 unauthorized_body) ''/devices'' no_options False signed_in)
       = Inl (ApiError (JStr ''UNAUTHORIZED'') (JStr ''no'') 200 JUndefined)"
proof -
  have n: "reply_200 b (length (sent signed_in)) (build_config signed_in ''/devices'' no_options)
       = (5, HttpResponse 200 ''OK'' (Inr b))" for b
    by (simp add: reply_200_def)
  have u: "get_prop unauthorized_body ''success'' = JBool False"
    "truthy (get_prop unauthorized_body ''error'')"
    "error_of_payload (get_prop unauthorized_body ''error'') 200
       = ApiError (JStr ''UNAUTHORIZED'') (JStr ''no'') 200 JUndefined"
    by (simp_all add: unauthorized_body_def error_of_payload_def)
  have r: "(200::int) \<le> 200 \<and> (200::int) \<le> 299" by simp
  note A = body_success_flag [where pf = demo_platform and net = "reply_200 success_with_error"
        and endpoint = "''/devices''" and s = signed_in and sa = signed_in and isRetry = False
        and options = no_options and d = 5 and st = 200
        and stext = "''OK''" and bd = "Inr success_with_error",
        OF signed_in_precheck n r]
  note B = body_success_flag [where pf = demo_platform and net = "reply_200 unauthorized_body"
        and endpoint = "''/devices''" and s = signed_in and sa = signed_in and isRetry = False
        and options = no_options and d = 5 and st = 200
        and stext = "''OK''" and bd = "Inr unauthorized_body",
        OF signed_in_precheck n r]
  have a: "fst (request demo_platform (reply_200 success_with_error) ''/devices'' no_options
                 False signed_in) = Inr success_with_error"
    using A success_with_error_props by blast
  have b: "fst (request demo_platform (reply_200 unauthorized_body) ''/devices'' no_options
                 False signed_in)
             = Inl (error_of_payload (get_prop unauthorized_body ''error'') 200)"
    using B u(1,2) by blast
  show ?thesis
    using a b u success_with_error_props n[of success_with_error]
      signed_in_precheck[of "reply_200 success_with_error" "''/devices''"]
    by simp
qed

text \<open>
  C4, as stated, fails: a 200 response whose body has \<open>success: true\<close> and an error
  payload is returned to the caller as the result.
\<close>

theorem success_true_with_error_counterexample:
  "get_prop success_with_error ''success'' = JBool True
   \<and> truthy (get_prop success_with_error ''error'')
   \<and> fst (request demo_platform (reply_200 success_with_error) ''/devices'' no_options False signed_in)
       = Inr success_with_error"
proof -
  have n: "reply_200 success_with_error (length (sent signed_in)) (build_config signed_in ''/devices'' no_options)
       = (5, HttpResponse 200 ''OK'' (Inr success_with_error))"
    by (simp add: reply_200_def)
  have h: "handle_response demo_platform ''/devices'' False (HttpResponse 200 ''OK'' (Inr success_with_error))
            = Some (Inr success_with_error)"
    by (simp add: handle_response_def check_body_def nullish_def success_with_error_def)
  from request_after_precheck[OF signed_in_precheck[of "reply_200 success_with_error" "''/devices''"] n h]
    success_with_error_props
  show ?thesis by simp
qed

lemma session_expired_errors:
  "session_expired_class no_refresh_token_error"
  "session_expired_class session_expired_error"
  "session_expired_class refresh_failed_error"
  by (simp_all add: session_expired_class_def no_refresh_token_error_def
      session_expired_error_def refresh_failed_error_def)

lemma absent_invalid:
  "getRefreshToken ck now = None \<Longrightarrow> \<not> isRefreshTokenValid pf ck now"
  by (simp add: isRefreshTokenValid_def)

text \<open>
  C5. With no renewal in flight and the refresh token absent or invalid,
  \<open>ensureValidToken\<close> fails with the invalid-token error of status 401 and leaves the
  client as it was, so nothing is sent; a request to a protected endpoint that needs the
  renewal fails with the session-expired error, removes both cookies and sends nothing.
\<close>

theorem no_refresh_token_no_network:
  assumes "\<not> isRefreshing s"
    and "getRefreshToken (jar s) (clock s) = None \<or> \<not> isRefreshTokenValid pf (jar s) (clock s)"
  shows "ensureValidToken pf net s = (Inl no_refresh_token_error, s)
    \<and> session_expired_class no_refresh_token_error
    \<and> sent (snd (ensureValidToken pf net s)) = sent s
    \<and> (protected_endpoint endpoint
         \<and> isTokenExpiredOrExpiringSoon pf (clock s) (getAuthToken (jar s) (clock s)) \<longrightarrow>
        request pf net endpoint options isRetry s
          = (Inl session_expired_error, s\<lparr>jar := removeAuthTokens (jar s)\<rparr>)
        \<and> session_expired_class session_expired_error
        \<and> sent (snd (request pf net endpoint options isRetry s)) = sent s)"
proof -
  from assms(2) have "\<not> isRefreshTokenValid pf (jar s) (clock s)"
    using absent_invalid by blast
  from ensureValidToken_no_token[OF assms(1) this]
  have e: "ensureValidToken pf net s = (Inl no_refresh_token_error, s)" .
  then show ?thesis
    by (simp add: session_expired_errors request_unfold precheck_def)
qed

theorem no_refresh_token_no_network_witness:
  "\<not> isRefreshing signed_out
   \<and> getRefreshToken (jar signed_out) (clock signed_out) = None
   \<and> ensureValidToken demo_platform html_401 signed_out = (Inl no_refresh_token_error, signed_out)
   \<and> protected_endpoint ''/devices''
   \<and> isTokenExpiredOrExpiringSoon demo_platform (clock signed_out)
        (getAuthToken (jar signed_out) (clock signed_out))
   \<and> fst (request demo_platform html_401 ''/devices'' no_options False signed_out)
        = Inl session_expired_error
   \<and> sent (snd (request demo_platform html_401 ''/devices'' no_options False signed_out)) = []"
proof -
  have a: "\<not> isRefreshing signed_out" by (simp add: signed_out_def)
  have b: "getRefreshToken (jar signed_out) (clock signed_out) = None"
    by (simp add: signed_out_def getRefreshToken_def getCookie_def)
  have c: "protected_endpoint ''/devices''" by (simp add: protected_endpoint_def)
  have d: "isTokenExpiredOrExpiringSoon demo_platform (clock signed_out)
        (getAuthToken (jar signed_out) (clock signed_out))"
    by (simp add: signed_out_def getAuthToken_def getCookie_def isTokenExpiredOrExpiringSoon_def)
  have e: "sent signed_out = []" by (simp add: signed_out_def)
  show ?thesis
    using a b c d e
      no_refresh_token_no_network [where s = signed_out and pf = demo_platform and net = html_401
        and endpoint = "''/devices''" and options = no_options and isRetry = False]
    by simp
qed

section \<open>Renewal after an authorization failure\<close>

lemma build_config_url: "url (build_config s endpoint options) = baseURL s @ endpoint"
  by (simp add: build_config_def Let_def)

lemma finish_refresh_eff:
  "baseURL (snd (finish_refresh pf v s)) = baseURL s"
  "sent (snd (finish_refresh pf v s)) = sent s"
  "clock (snd (finish_refresh pf v s)) = clock s"
  by (simp_all add: finish_refresh_def store_tokens_def split: sum.splits)


lemma removeAuthTokens_cleared:
  "auth_token (removeAuthTokens ck) = None" "refresh_token (removeAuthTokens ck) = None"
  by (simp_all add: removeAuthTokens_def)

lemma handle_response_final:
  "\<not> protected_endpoint endpoint \<or> isRetry \<Longrightarrow> \<exists>r. handle_response pf endpoint isRetry fr = Some r"
  using handle_response_None[of pf endpoint isRetry fr] by (cases "handle_response pf endpoint isRetry fr") auto

lemma request_unprotected:
  assumes "\<not> protected_endpoint endpoint"
  shows "\<exists>r. handle_response pf endpoint isRetry (snd (net (length (sent s)) (build_config s endpoint options))) = Some r
           \<and> request pf net endpoint options isRetry s
              = (r, s\<lparr>clock := clock s + int (fst (net (length (sent s)) (build_config s endpoint options))),
                      sent := sent s @ [build_config s endpoint options]\<rparr>)"
proof -
  have pc: "precheck pf net endpoint s = (Inr (), s)" using assms by (simp add: precheck_def)
  obtain d fr where n: "net (length (sent s)) (build_config s endpoint options) = (d, fr)"
    by (cases "net (length (sent s)) (build_config s endpoint options)")
  from handle_response_final[of endpoint isRetry pf fr] assms
  obtain r where h: "handle_response pf endpoint isRetry fr = Some r" by auto
  from request_after_precheck[OF pc n h] n h show ?thesis by simp
qed

lemma refresh_unprotected: "\<not> protected_endpoint ''/auth/refresh''"
  by (simp add: protected_endpoint_def)

lemma ensureValidToken_cases:
  "ensureValidToken pf net s =
     (case (if isRefreshing s then refreshPromise s else None) of
        Some outcome \<Rightarrow> (join_refresh outcome, snd (finish_refresh pf outcome s))
      | None \<Rightarrow>
          (case getRefreshToken (jar s) (clock s) of
             None \<Rightarrow> (Inl no_refresh_token_error, s)
           | Some v \<Rightarrow>
               if v = [] \<or> \<not> isRefreshTokenValid pf (jar s) (clock s)
               then (Inl no_refresh_token_error, s)
               else
                 (case request pf net ''/auth/refresh'' (refresh_options v) True
                         (s\<lparr>isRefreshing := True\<rparr>) of
                    (outcome, s2) \<Rightarrow>
                      finish_refresh pf outcome (s2\<lparr>refreshPromise := Some outcome\<rparr>))))"
  by (rule ensureValidToken.simps)

lemma ensureValidToken_eff:
  "baseURL (snd (ensureValidToken pf net s)) = baseURL s
   \<and> (sent (snd (ensureValidToken pf net s)) = sent s
      \<or> (\<exists>q. sent (snd (ensureValidToken pf net s)) = sent s @ [q]
              \<and> url q = baseURL s @ ''/auth/refresh''))"
proof (cases "if isRefreshing s then refreshPromise s else None")
  case (Some v)
  then show ?thesis by (simp add: ensureValidToken_cases finish_refresh_eff)
next
  case None
  show ?thesis
  proof (cases "getRefreshToken (jar s) (clock s)")
    case N: None
    with None show ?thesis by (simp add: ensureValidToken_cases)
  next
    case (Some v)
    show ?thesis
    proof (cases "v = [] \<or> \<not> isRefreshTokenValid pf (jar s) (clock s)")
      case True
      with None Some show ?thesis by (simp add: ensureValidToken_cases)
    next
      case False
      from request_unprotected[OF refresh_unprotected, of pf True net "s\<lparr>isRefreshing := True\<rparr>" "refresh_options v"]
      obtain r s2 where rq: "request pf net ''/auth/refresh'' (refresh_options v) True (s\<lparr>isRefreshing := True\<rparr>) = (r, s2)"
        and s2: "baseURL s2 = baseURL s" "sent s2 = sent s @ [build_config (s\<lparr>isRefreshing := True\<rparr>) ''/auth/refresh'' (refresh_options v)]"
        by auto
      have e: "ensureValidToken pf net s = finish_refresh pf r (s2\<lparr>refreshPromise := Some r\<rparr>)"
        using None Some False rq by (simp add: ensureValidToken_cases)
      have u: "url (build_config (s\<lparr>isRefreshing := True\<rparr>) ''/auth/refresh'' (refresh_options v)) = baseURL s @ ''/auth/refresh''"
        by (simp add: build_config_url)
      show ?thesis using s2 u by (simp add: e finish_refresh_eff)
    qed
  qed
qed

lemma precheck_snd:
  "snd (precheck pf net endpoint s) = s
   \<or> snd (precheck pf net endpoint s) = snd (ensureValidToken pf net s)
   \<or> snd (precheck pf net endpoint s)
        = (snd (ensureValidToken pf net s))\<lparr>jar := removeAuthTokens (jar (snd (ensureValidToken pf net s)))\<rparr>"
proof (cases "protected_endpoint endpoint
         \<and> isTokenExpiredOrExpiringSoon pf (clock s) (getAuthToken (jar s) (clock s))")
  case True
  obtain r s1 where e: "ensureValidToken pf net s = (r, s1)" by (cases "ensureValidToken pf net s")
  show ?thesis using True e by (cases r) (simp_all add: precheck_def)
next
  case False
  then have "precheck pf net endpoint s = (Inr (), s)" unfolding precheck_def by (rule if_not_P)
  then show ?thesis by simp
qed

lemma precheck_eff:
  "baseURL (snd (precheck pf net endpoint s)) = baseURL s
   \<and> (sent (snd (precheck pf net endpoint s)) = sent s
      \<or> (\<exists>q. sent (snd (precheck pf net endpoint s)) = sent s @ [q]
              \<and> url q = baseURL s @ ''/auth/refresh''))"
  using ensureValidToken_eff[of pf net s] precheck_snd[of pf net endpoint s]
  by (elim disjE conjE) simp_all

lemma calls_to_append:
  "sent s' = sent s @ [q] \<Longrightarrow> calls_to u s' = calls_to u s + (if url q = u then 1 else 0)"
  by (simp add: calls_to_def)

lemma calls_to_same: "sent s' = sent s \<Longrightarrow> calls_to u s' = calls_to u s"
  by (simp add: calls_to_def)

lemma protected_url: "protected_endpoint endpoint \<Longrightarrow> base @ ''/auth/refresh'' \<noteq> base @ endpoint"
  by (auto simp: protected_endpoint_def)

lemma refresh_only_calls:
  assumes "protected_endpoint endpoint"
    and "sent s' = sent s \<or> (\<exists>q. sent s' = sent s @ [q] \<and> url q = base @ ''/auth/refresh'')"
  shows "calls_to (base @ endpoint) s' = calls_to (base @ endpoint) s"
proof -
  from assms(2) show ?thesis
  proof
    assume "sent s' = sent s"
    then show ?thesis by (rule calls_to_same)
  next
    assume "\<exists>q. sent s' = sent s @ [q] \<and> url q = base @ ''/auth/refresh''"
    then obtain q where q: "sent s' = sent s @ [q]" "url q = base @ ''/auth/refresh''" by blast
    from calls_to_append[OF q(1), of "base @ endpoint"] q(2) protected_url[OF assms(1), of base]
    show ?thesis by simp
  qed
qed

lemma ensureValidToken_calls:
  assumes "protected_endpoint endpoint"
  shows "calls_to (baseURL s @ endpoint) (snd (ensureValidToken pf net s)) = calls_to (baseURL s @ endpoint) s"
  using ensureValidToken_eff[of pf net s] refresh_only_calls[OF assms] by blast

lemma precheck_calls:
  assumes "protected_endpoint endpoint"
  shows "calls_to (baseURL s @ endpoint) (snd (precheck pf net endpoint s)) = calls_to (baseURL s @ endpoint) s"
  using precheck_eff[of pf net endpoint s] refresh_only_calls[OF assms] by blast

lemma retry_ends:
  assumes "precheck pf net endpoint s = (Inr (), sa)"
    and "net (length (sent sa)) (build_config sa endpoint options) = (d, fr)"
  shows "\<exists>r. handle_response pf endpoint True fr = Some r
           \<and> request pf net endpoint options True s
              = (r, sa\<lparr>clock := clock sa + int d,
                       sent := sent sa @ [build_config sa endpoint options]\<rparr>)"
proof -
  from handle_response_final[of endpoint True pf fr]
  obtain r where h: "handle_response pf endpoint True fr = Some r" by auto
  from request_after_precheck[OF assms h] h show ?thesis by simp
qed

lemma request_precheck_fails:
  assumes "precheck pf net endpoint s = (Inl e, sa)"
  shows "request pf net endpoint options isRetry s = (Inl e, sa)"
  using assms by (simp add: request_unfold)

lemma retry_calls:
  assumes "protected_endpoint endpoint"
  shows "calls_to (baseURL s @ endpoint) (snd (request pf net endpoint options True s))
           \<le> calls_to (baseURL s @ endpoint) s + 1"
proof -
  obtain g sa where pc: "precheck pf net endpoint s = (g, sa)" by (cases "precheck pf net endpoint s")
  from precheck_calls[OF assms, of s pf net] pc
  have c: "calls_to (baseURL s @ endpoint) sa = calls_to (baseURL s @ endpoint) s" by simp
  show ?thesis
  proof (cases g)
    case (Inl e)
    with pc request_precheck_fails[of pf net endpoint s e sa options True] c show ?thesis by simp
  next
    case (Inr u)
    obtain d fr where n: "net (length (sent sa)) (build_config sa endpoint options) = (d, fr)"
      by (cases "net (length (sent sa)) (build_config sa endpoint options)")
    from pc Inr have pc': "precheck pf net endpoint s = (Inr (), sa)" by simp
    from retry_ends[OF pc' n] obtain r where
      "request pf net endpoint options True s
         = (r, sa\<lparr>clock := clock sa + int d, sent := sent sa @ [build_config sa endpoint options]\<rparr>)"
      by blast
    then have "calls_to (baseURL s @ endpoint) (snd (request pf net endpoint options True s))
                 \<le> calls_to (baseURL s @ endpoint) sa + 1"
      by (simp add: calls_to_def)
    with c show ?thesis by simp
  qed
qed

lemma precheck_fails_cleared:
  assumes "precheck pf net endpoint s = (Inl e, sd)"
  shows "e = session_expired_error \<and> auth_token (jar sd) = None \<and> refresh_token (jar sd) = None"
proof (cases "protected_endpoint endpoint
         \<and> isTokenExpiredOrExpiringSoon pf (clock s) (getAuthToken (jar s) (clock s))")
  case True
  obtain r s1 where e: "ensureValidToken pf net s = (r, s1)" by (cases "ensureValidToken pf net s")
  show ?thesis using True e assms
    by (cases r) (auto simp: precheck_def removeAuthTokens_cleared)
next
  case False
  then have "precheck pf net endpoint s = (Inr (), s)" unfolding precheck_def by (rule if_not_P)
  with assms show ?thesis by simp
qed

lemma one_more_call:
  assumes "sent s' = sent s \<or> (\<exists>q. sent s' = sent s @ [q] \<and> url q = u)"
  shows "calls_to u s' \<le> calls_to u s + 1"
proof -
  from assms show ?thesis
  proof
    assume "sent s' = sent s"
    then show ?thesis by (simp add: calls_to_def)
  next
    assume "\<exists>q. sent s' = sent s @ [q] \<and> url q = u"
    then obtain q where "sent s' = sent s @ [q]" by blast
    then show ?thesis by (simp add: calls_to_def)
  qed
qed

lemma ensureValidToken_renewals:
  "calls_to (baseURL s @ ''/auth/refresh'') (snd (ensureValidToken pf net s))
     \<le> calls_to (baseURL s @ ''/auth/refresh'') s + 1"
  using ensureValidToken_eff[of pf net s] one_more_call by blast

lemma precheck_renewals:
  "calls_to (baseURL s @ ''/auth/refresh'') (snd (precheck pf net endpoint s))
     \<le> calls_to (baseURL s @ ''/auth/refresh'') s + 1"
  using precheck_eff[of pf net endpoint s] one_more_call by blast

lemma endpoint_fetch_calls:
  assumes "protected_endpoint endpoint" and "baseURL sd = base"
  shows "calls_to (base @ endpoint)
           (sd\<lparr>clock := c, sent := sent sd @ [build_config sd endpoint options]\<rparr>)
           = calls_to (base @ endpoint) sd + 1"
    and "calls_to (base @ ''/auth/refresh'')
           (sd\<lparr>clock := c, sent := sent sd @ [build_config sd endpoint options]\<rparr>)
           = calls_to (base @ ''/auth/refresh'') sd"
  using assms protected_url[OF assms(1), of base]
  by (auto simp: calls_to_def build_config_url)

lemmas example_defs =
  after_401_def after_renewal_def signed_in_def signed_out_def
  getRefreshToken_def getAuthToken_def getCookie_def isRefreshTokenValid_def
  isTokenExpiredOrExpiringSoon_def decodeJWTPayload_def demo_platform_def demo_jwt_def
  replace_char_def js_gt_def js_le_def protected_endpoint_def fetch_def build_config_def
  only_refresh_works_def always_unauthorized_def handle_response_def check_body_def
  standard_error_def error_of_payload_def nullish_def tokens_body_def unauthorized_body_def
  finish_refresh_def store_tokens_def write_pair_def token_pair_def setAuthToken_def
  setRefreshToken_def removeAuthTokens_def Let_def refresh_options_def string_truthy_def
  no_options_def precheck_def unwritable_text_def session_expired_error_def
  no_refresh_token_error_def

lemmas opaque_defs =
  opaque_refresh_def opaque_tokens_body_def after_opaque_renewal_def after_opaque_retry_def
  short_access_def short_access_body_def after_second_renewal_def

lemma renewal_in_example:
  "ensureValidToken demo_platform only_refresh_works after_401 = (Inr (), after_renewal)"
  by (simp add: ensureValidToken.simps request.simps example_defs)

lemma renewal_fails_in_example:
  "fst (ensureValidToken demo_platform always_unauthorized after_401)
     = Inl (ApiError (JStr ''UNAUTHORIZED'') (JStr ''no'') 401 JUndefined)"
  by (simp add: ensureValidToken.simps request.simps example_defs)

lemma after_renewal_precheck:
  "precheck demo_platform net ''/devices'' after_renewal = (Inr (), after_renewal)"
  by (simp add: example_defs)

lemma opaque_renewal_in_example:
  "ensureValidToken demo_platform opaque_refresh after_401 = (Inr (), after_opaque_renewal)"
  by (simp add: ensureValidToken.simps request.simps example_defs opaque_defs)

lemma opaque_retry_precheck:
  "precheck demo_platform opaque_refresh ''/devices'' after_opaque_renewal
     = (Inl session_expired_error, after_opaque_retry)"
  by (simp add: ensureValidToken.simps example_defs opaque_defs)

lemma opaque_request_in_example:
  "request demo_platform opaque_refresh ''/devices'' no_options False signed_in
     = (Inl session_expired_error, after_opaque_retry)"
  by (simp add: ensureValidToken.simps request.simps example_defs opaque_defs)

lemma short_renewal_in_example:
  "ensureValidToken demo_platform short_access after_401 = (Inr (), after_opaque_renewal\<lparr>jar := token_pair ''opaque'' demo_jwt 10\<rparr>)"
  by (simp add: ensureValidToken.simps request.simps example_defs opaque_defs)

lemma short_retry_precheck:
  "precheck demo_platform short_access ''/devices''
     (after_opaque_renewal\<lparr>jar := token_pair ''opaque'' demo_jwt 10\<rparr>)
     = (Inr (), after_second_renewal)"
  by (simp add: ensureValidToken.simps request.simps example_defs opaque_defs)

text \<open>
  C6, as stated, fails twice over. A 401 whose body is not JSON starts no renewal: the
  request to the protected endpoint \<open>/devices\<close>, not a retry, fails with the network-error
  code, the only call of \<open>fetch\<close> is the one to the endpoint and both cookies are still
  there. And a renewal that succeeds need not be followed by a retry of the call: when the
  renewal stores tokens that do not decode, the retry's own check before the request asks
  for a renewal again, that one fails for want of a valid refresh token, and the request
  ends with the session-expired error and both cookies removed, \<open>/devices\<close> having been
  called once.
\<close>

theorem renewal_after_401_counterexample:
  "protected_endpoint ''/devices''
   \<and> html_401 (length (sent signed_in)) (build_config signed_in ''/devices'' no_options)
        = (5, HttpResponse 401 ''Unauthorized'' (Inl ''Unexpected token <''))
   \<and> request demo_platform html_401 ''/devices'' no_options False signed_in
        = (Inl (ApiError NETWORK_ERROR (JStr ''Unauthorized'') 401 JUndefined),
           signed_in\<lparr>clock := 5, sent := [build_config signed_in ''/devices'' no_options]\<rparr>)
   \<and> \<not> session_expired_class (ApiError NETWORK_ERROR (JStr ''Unauthorized'') 401 JUndefined)
   \<and> opaque_refresh (length (sent signed_in)) (build_config signed_in ''/devices'' no_options)
        = (5, HttpResponse 401 ''Unauthorized'' (Inr unauthorized_body))
   \<and> ensureValidToken demo_platform opaque_refresh after_401 = (Inr (), after_opaque_renewal)
   \<and> request demo_platform opaque_refresh ''/devices'' no_options False signed_in
        = (Inl session_expired_error, after_opaque_retry)
   \<and> calls_to ''http://localhost:8000/devices'' after_opaque_retry = 1
   \<and> jar after_opaque_retry = \<lparr>auth_token = None, refresh_token = None\<rparr>"
proof -
  have n: "html_401 (length (sent signed_in)) (build_config signed_in ''/devices'' no_options)
        = (5, HttpResponse 401 ''Unauthorized'' (Inl ''Unexpected token <''))"
    by (simp add: html_401_def)
  have h: "handle_response demo_platform ''/devices'' False
             (HttpResponse 401 ''Unauthorized'' (Inl ''Unexpected token <''))
           = Some (Inl (ApiError NETWORK_ERROR (JStr ''Unauthorized'') 401 JUndefined))"
    by (simp add: handle_response_def)
  have e: "sent signed_in = []" "clock signed_in = 0" by (simp_all add: signed_in_def)
  from request_after_precheck[OF signed_in_precheck[of html_401 "''/devices''"] n h] n e
  have first: "protected_endpoint ''/devices''
   \<and> html_401 (length (sent signed_in)) (build_config signed_in ''/devices'' no_options)
        = (5, HttpResponse 401 ''Unauthorized'' (Inl ''Unexpected token <''))
   \<and> request demo_platform html_401 ''/devices'' no_options False signed_in
        = (Inl (ApiError NETWORK_ERROR (JStr ''Unauthorized'') 401 JUndefined),
           signed_in\<lparr>clock := 5, sent := [build_config signed_in ''/devices'' no_options]\<rparr>)
   \<and> \<not> session_expired_class (ApiError NETWORK_ERROR (JStr ''Unauthorized'') 401 JUndefined)"
    by (simp add: protected_endpoint_def session_expired_class_def NETWORK_ERROR_def
        INVALID_TOKEN_def TOKEN_EXPIRED_def)
  have o: "opaque_refresh (length (sent signed_in)) (build_config signed_in ''/devices'' no_options)
        = (5, HttpResponse 401 ''Unauthorized'' (Inr unauthorized_body))"
    by (simp add: opaque_refresh_def build_config_def signed_in_def Let_def)
  have c: "calls_to ''http://localhost:8000/devices'' after_opaque_retry = 1"
          "jar after_opaque_retry = \<lparr>auth_token = None, refresh_token = None\<rparr>"
    by (simp_all add: calls_to_def after_opaque_retry_def after_opaque_renewal_def example_defs)
  from first o opaque_renewal_in_example opaque_request_in_example c show ?thesis by simp
qed

text \<open>
  C6, amended. A request to a protected endpoint that passed the check before the request,
  is not a retry and gets a 401 with a JSON body calls \<open>ensureValidToken\<close>. If that fails, the
  request fails with the session-expired error, both cookies are removed and no further call
  goes to the endpoint. If it succeeds, the request calls itself once more, as a retry, and
  returns what the retry returns. The retry runs the check before the request again. If
  that check fails, the call is not sent again, both cookies are removed and the request
  fails with the session-expired error. If it passes, the call is sent to the endpoint
  exactly once more and the request ends with what \<open>handle_response\<close> makes of that one
  response, for a second 401 the error of that response, with nothing sent after it. In
  all, after the first 401 the endpoint is called at most once more and the renewal
  endpoint at most twice.
\<close>

theorem unauthorized_renew_retry_once:
  assumes pc: "precheck pf net endpoint s = (Inr (), sa)"
    and rsp: "net (length (sent sa)) (build_config sa endpoint options)
                = (d, HttpResponse 401 stext (Inr b))"
    and prot: "protected_endpoint endpoint"
    and sb: "sb = sa\<lparr>clock := clock sa + int d,
                      sent := sent sa @ [build_config sa endpoint options]\<rparr>"
  shows "(\<forall>e sc. ensureValidToken pf net sb = (Inl e, sc) \<longrightarrow>
            request pf net endpoint options False s
              = (Inl session_expired_error, sc\<lparr>jar := removeAuthTokens (jar sc)\<rparr>)
            \<and> session_expired_class session_expired_error
            \<and> auth_token (jar (snd (request pf net endpoint options False s))) = None
            \<and> refresh_token (jar (snd (request pf net endpoint options False s))) = None
            \<and> calls_to (baseURL s @ endpoint) (snd (request pf net endpoint options False s))
                = calls_to (baseURL s @ endpoint) sb)
    \<and> (\<forall>sc. ensureValidToken pf net sb = (Inr (), sc) \<longrightarrow>
            request pf net endpoint options False s = request pf net endpoint options True sc)
    \<and> (\<forall>sc e sd. ensureValidToken pf net sb = (Inr (), sc)
            \<and> precheck pf net endpoint sc = (Inl e, sd) \<longrightarrow>
            request pf net endpoint options False s = (Inl session_expired_error, sd)
            \<and> session_expired_class session_expired_error
            \<and> auth_token (jar sd) = None \<and> refresh_token (jar sd) = None
            \<and> calls_to (baseURL s @ endpoint) sd = calls_to (baseURL s @ endpoint) sb)
    \<and> (\<forall>sc sd d2 fr. ensureValidToken pf net sb = (Inr (), sc)
            \<and> precheck pf net endpoint sc = (Inr (), sd)
            \<and> net (length (sent sd)) (build_config sd endpoint options) = (d2, fr) \<longrightarrow>
            (\<exists>r. handle_response pf endpoint True fr = Some r
                 \<and> request pf net endpoint options False s
                     = (r, sd\<lparr>clock := clock sd + int d2,
                              sent := sent sd @ [build_config sd endpoint options]\<rparr>))
            \<and> calls_to (baseURL s @ endpoint) (snd (request pf net endpoint options False s))
                = calls_to (baseURL s @ endpoint) sb + 1)
    \<and> (\<forall>sc sd d2 t2 b2. ensureValidToken pf net sb = (Inr (), sc)
            \<and> precheck pf net endpoint sc = (Inr (), sd)
            \<and> net (length (sent sd)) (build_config sd endpoint options)
                = (d2, HttpResponse 401 t2 (Inr b2)) \<longrightarrow>
            request pf net endpoint options False s
              = (Inl (standard_error pf b2 401),
                 sd\<lparr>clock := clock sd + int d2,
                    sent := sent sd @ [build_config sd endpoint options]\<rparr>))
    \<and> calls_to (baseURL s @ endpoint) (snd (request pf net endpoint options False s))
          \<le> calls_to (baseURL s @ endpoint) sb + 1
    \<and> calls_to (baseURL s @ ''/auth/refresh'') (snd (request pf net endpoint options False s))
          \<le> calls_to (baseURL s @ ''/auth/refresh'') sb + 2"
proof -
  let ?ep = "baseURL s @ endpoint" and ?rf = "baseURL s @ ''/auth/refresh''"
  let ?final = "snd (request pf net endpoint options False s)"
  have none: "handle_response pf endpoint False (HttpResponse 401 stext (Inr b)) = None"
    using prot by (simp add: handle_response_None)
  note renew = request_renew[OF pc rsp none sb]
  have base: "baseURL sb = baseURL s"
    using precheck_eff[of pf net endpoint s] pc sb by simp
  have A: "request pf net endpoint options False s
              = (Inl session_expired_error, sc\<lparr>jar := removeAuthTokens (jar sc)\<rparr>)
            \<and> session_expired_class session_expired_error
            \<and> auth_token (jar ?final) = None \<and> refresh_token (jar ?final) = None
            \<and> calls_to ?ep ?final = calls_to ?ep sb
            \<and> calls_to ?rf ?final \<le> calls_to ?rf sb + 1"
    if e: "ensureValidToken pf net sb = (Inl e, sc)" for e sc
  proof -
    have r: "request pf net endpoint options False s
              = (Inl session_expired_error, sc\<lparr>jar := removeAuthTokens (jar sc)\<rparr>)"
      using renew e by simp
    have c: "calls_to ?ep sc = calls_to ?ep sb"
      using ensureValidToken_calls[OF prot, of sb pf net] e base by simp
    have c2: "calls_to ?rf sc \<le> calls_to ?rf sb + 1"
      using ensureValidToken_renewals[of sb pf net] e base by simp
    show ?thesis using r c c2
      by (simp add: session_expired_errors removeAuthTokens_def calls_to_def)
  qed
  have B: "request pf net endpoint options False s = request pf net endpoint options True sc
           \<and> baseURL sc = baseURL s \<and> calls_to ?ep sc = calls_to ?ep sb
           \<and> calls_to ?rf sc \<le> calls_to ?rf sb + 1"
    if e: "ensureValidToken pf net sb = (Inr (), sc)" for sc
  proof -
    have r: "request pf net endpoint options False s = request pf net endpoint options True sc"
      using renew e by simp
    have b: "baseURL sc = baseURL s"
      using ensureValidToken_eff[of pf net sb] e base by simp
    have c: "calls_to ?ep sc = calls_to ?ep sb"
      using ensureValidToken_calls[OF prot, of sb pf net] e base by simp
    have c2: "calls_to ?rf sc \<le> calls_to ?rf sb + 1"
      using ensureValidToken_renewals[of sb pf net] e base by simp
    from r b c c2 show ?thesis by simp
  qed
  have B1: "request pf net endpoint options False s = (Inl session_expired_error, sd)
            \<and> session_expired_class session_expired_error
            \<and> auth_token (jar sd) = None \<and> refresh_token (jar sd) = None
            \<and> calls_to ?ep sd = calls_to ?ep sb
            \<and> calls_to ?rf sd \<le> calls_to ?rf sb + 2"
    if e: "ensureValidToken pf net sb = (Inr (), sc)"
      and p: "precheck pf net endpoint sc = (Inl e2, sd)" for sc e2 sd
  proof -
    note b = B[OF e]
    from precheck_fails_cleared[OF p]
    have cl: "e2 = session_expired_error" "auth_token (jar sd) = None"
      "refresh_token (jar sd) = None" by simp_all
    have r: "request pf net endpoint options True sc = (Inl e2, sd)"
      by (rule request_precheck_fails[OF p])
    have c: "calls_to ?ep sd = calls_to ?ep sc"
      using precheck_calls[OF prot, of sc pf net] p b by simp
    have c2: "calls_to ?rf sd \<le> calls_to ?rf sc + 1"
      using precheck_renewals[of sc pf net endpoint] p b by simp
    from b cl r c c2 show ?thesis by (simp add: session_expired_errors)
  qed
  have B2: "(\<exists>r. handle_response pf endpoint True fr = Some r
                 \<and> request pf net endpoint options False s
                     = (r, sd\<lparr>clock := clock sd + int d2,
                              sent := sent sd @ [build_config sd endpoint options]\<rparr>))
            \<and> calls_to ?ep ?final = calls_to ?ep sb + 1
            \<and> calls_to ?rf ?final \<le> calls_to ?rf sb + 2"
    if e: "ensureValidToken pf net sb = (Inr (), sc)"
      and p: "precheck pf net endpoint sc = (Inr (), sd)"
      and n: "net (length (sent sd)) (build_config sd endpoint options) = (d2, fr)"
    for sc sd d2 fr
  proof -
    note b = B[OF e]
    have c: "calls_to ?ep sd = calls_to ?ep sc"
      using precheck_calls[OF prot, of sc pf net] p b by simp
    have c2: "calls_to ?rf sd \<le> calls_to ?rf sc + 1"
      using precheck_renewals[of sc pf net endpoint] p b by simp
    have b2: "baseURL sd = baseURL s"
      using precheck_eff[of pf net endpoint sc] p b by simp
    from retry_ends[OF p n] obtain r where
      h: "handle_response pf endpoint True fr = Some r"
      and q: "request pf net endpoint options True sc
         = (r, sd\<lparr>clock := clock sd + int d2,
                  sent := sent sd @ [build_config sd endpoint options]\<rparr>)"
      by blast
    from q b have q': "request pf net endpoint options False s
         = (r, sd\<lparr>clock := clock sd + int d2,
                  sent := sent sd @ [build_config sd endpoint options]\<rparr>)" by simp
    have f: "calls_to ?ep ?final = calls_to ?ep sd + 1" "calls_to ?rf ?final = calls_to ?rf sd"
      using endpoint_fetch_calls[OF prot b2, where c = "clock sd + int d2" and options = options] q'
      by simp_all
    from h q' f b c c2 show ?thesis by auto
  qed
  have B3: "request pf net endpoint options False s
              = (Inl (standard_error pf b2 401),
                 sd\<lparr>clock := clock sd + int d2,
                    sent := sent sd @ [build_config sd endpoint options]\<rparr>)"
    if e: "ensureValidToken pf net sb = (Inr (), sc)"
      and p: "precheck pf net endpoint sc = (Inr (), sd)"
      and n: "net (length (sent sd)) (build_config sd endpoint options)
                = (d2, HttpResponse 401 t2 (Inr b2))"
    for sc sd d2 t2 b2
  proof -
    have "handle_response pf endpoint True (HttpResponse 401 t2 (Inr b2))
            = Some (Inl (standard_error pf b2 401))"
      by (simp add: handle_response_def)
    with B2[OF e p n] show ?thesis by auto
  qed
  have bounds: "calls_to ?ep ?final \<le> calls_to ?ep sb + 1
                \<and> calls_to ?rf ?final \<le> calls_to ?rf sb + 2"
  proof -
    obtain r3 sc where e: "ensureValidToken pf net sb = (r3, sc)"
      by (cases "ensureValidToken pf net sb")
    show ?thesis
    proof (cases r3)
      case (Inl e3)
      with e have e': "ensureValidToken pf net sb = (Inl e3, sc)" by simp
      from A[OF e'] have "calls_to ?ep ?final = calls_to ?ep sb"
        and "calls_to ?rf ?final \<le> calls_to ?rf sb + 1" by blast+
      then show ?thesis by simp
    next
      case (Inr u)
      with e have e': "ensureValidToken pf net sb = (Inr (), sc)" by simp
      obtain g sd where p: "precheck pf net endpoint sc = (g, sd)"
        by (cases "precheck pf net endpoint sc")
      show ?thesis
      proof (cases g)
        case (Inl e2)
        with p have p': "precheck pf net endpoint sc = (Inl e2, sd)" by simp
        from B1[OF e' p'] have r: "request pf net endpoint options False s
                                     = (Inl session_expired_error, sd)"
          and x: "calls_to ?ep sd = calls_to ?ep sb"
          and y: "calls_to ?rf sd \<le> calls_to ?rf sb + 2" by blast+
        from r have "?final = sd" by simp
        with x y show ?thesis by simp
      next
        case (Inr u2)
        with p have p': "precheck pf net endpoint sc = (Inr (), sd)" by simp
        obtain d2 fr where n: "net (length (sent sd)) (build_config sd endpoint options) = (d2, fr)"
          by (cases "net (length (sent sd)) (build_config sd endpoint options)")
        from B2[OF e' p' n] have "calls_to ?ep ?final = calls_to ?ep sb + 1"
          and "calls_to ?rf ?final \<le> calls_to ?rf sb + 2" by blast+
        then show ?thesis by simp
      qed
    qed
  qed
  from A B B1 B2 B3 bounds show ?thesis by blast
qed

theorem unauthorized_renew_retry_once_witness:
  "precheck demo_platform only_refresh_works ''/devices'' signed_in = (Inr (), signed_in)
   \<and> only_refresh_works (length (sent signed_in)) (build_config signed_in ''/devices'' no_options)
        = (5, HttpResponse 401 ''Unauthorized'' (Inr unauthorized_body))
   \<and> protected_endpoint ''/devices''
   \<and> ensureValidToken demo_platform only_refresh_works after_401 = (Inr (), after_renewal)
   \<and> precheck demo_platform only_refresh_works ''/devices'' after_renewal
        = (Inr (), after_renewal)
   \<and> request demo_platform only_refresh_works ''/devices'' no_options False signed_in
        = (Inl (ApiError (JStr ''UNAUTHORIZED'') (JStr ''no'') 401 JUndefined),
           after_renewal\<lparr>clock := 15,
              sent := sent after_renewal @ [build_config after_renewal ''/devices'' no_options]\<rparr>)
   \<and> calls_to ''http://localhost:8000/devices''
        (snd (request demo_platform only_refresh_works ''/devices'' no_options False signed_in)) = 2
   \<and> calls_to ''http://localhost:8000/auth/refresh''
        (snd (request demo_platform only_refresh_works ''/devices'' no_options False signed_in)) \<le> 2
   \<and> ensureValidToken demo_platform opaque_refresh after_401 = (Inr (), after_opaque_renewal)
   \<and> precheck demo_platform opaque_refresh ''/devices'' after_opaque_renewal
        = (Inl session_expired_error, after_opaque_retry)
   \<and> request demo_platform opaque_refresh ''/devices'' no_options False signed_in
        = (Inl session_expired_error, after_opaque_retry)
   \<and> calls_to ''http://localhost:8000/devices'' after_opaque_retry = 1
   \<and> precheck demo_platform short_access ''/devices''
        (after_opaque_renewal\<lparr>jar := token_pair ''opaque'' demo_jwt 10\<rparr>)
        = (Inr (), after_second_renewal)
   \<and> request demo_platform short_access ''/devices'' no_options False signed_in
        = (Inl (ApiError (JStr ''UNAUTHORIZED'') (JStr ''no'') 401 JUndefined),
           after_second_renewal\<lparr>clock := 20,
              sent := sent after_second_renewal
                        @ [build_config after_second_renewal ''/devices'' no_options]\<rparr>)
   \<and> calls_to ''http://localhost:8000/auth/refresh'' after_second_renewal = 2
   \<and> fst (request demo_platform always_unauthorized ''/devices'' no_options False signed_in)
        = Inl session_expired_error
   \<and> jar (snd (request demo_platform always_unauthorized ''/devices'' no_options False signed_in))
        = \<lparr>auth_token = None, refresh_token = None\<rparr>"
proof -
  have prot: "protected_endpoint ''/devices''" by (simp add: protected_endpoint_def)
  have rsp: "only_refresh_works (length (sent signed_in))
               (build_config signed_in ''/devices'' no_options)
        = (5, HttpResponse 401 ''Unauthorized'' (Inr unauthorized_body))"
    and rspo: "opaque_refresh (length (sent signed_in))
               (build_config signed_in ''/devices'' no_options)
        = (5, HttpResponse 401 ''Unauthorized'' (Inr unauthorized_body))"
    and rsps: "short_access (length (sent signed_in))
               (build_config signed_in ''/devices'' no_options)
        = (5, HttpResponse 401 ''Unauthorized'' (Inr unauthorized_body))"
    and rspf: "always_unauthorized (length (sent signed_in))
               (build_config signed_in ''/devices'' no_options)
        = (5, HttpResponse 401 ''Unauthorized'' (Inr unauthorized_body))"
    by (simp_all add: only_refresh_works_def opaque_refresh_def short_access_def
        always_unauthorized_def build_config_def signed_in_def Let_def)
  have rsp2: "only_refresh_works (length (sent after_renewal))
                (build_config after_renewal ''/devices'' no_options)
        = (5, HttpResponse 401 ''Unauthorized'' (Inr unauthorized_body))"
    by (simp add: only_refresh_works_def build_config_def after_renewal_def Let_def)
  have rsp3: "short_access (length (sent after_second_renewal))
                (build_config after_second_renewal ''/devices'' no_options)
        = (5, HttpResponse 401 ''Unauthorized'' (Inr unauthorized_body))"
    by (simp add: short_access_def build_config_def after_second_renewal_def Let_def)
  have sb: "after_401 = signed_in\<lparr>clock := clock signed_in + int 5,
              sent := sent signed_in @ [build_config signed_in ''/devices'' no_options]\<rparr>"
    by (simp add: after_401_def signed_in_def)
  note T = unauthorized_renew_retry_once
             [OF signed_in_precheck[of only_refresh_works "''/devices''"] rsp prot sb]
  note O = unauthorized_renew_retry_once
             [OF signed_in_precheck[of opaque_refresh "''/devices''"] rspo prot sb]
  note S = unauthorized_renew_retry_once
             [OF signed_in_precheck[of short_access "''/devices''"] rsps prot sb]
  note F = unauthorized_renew_retry_once
             [OF signed_in_precheck[of always_unauthorized "''/devices''"] rspf prot sb]
  from T renewal_in_example after_renewal_precheck[of only_refresh_works] rsp2
  have t1: "request demo_platform only_refresh_works ''/devices'' no_options False signed_in
             = (Inl (standard_error demo_platform unauthorized_body 401),
                after_renewal\<lparr>clock := clock after_renewal + int 5,
                  sent := sent after_renewal @ [build_config after_renewal ''/devices'' no_options]\<rparr>)"
    and t2: "calls_to (baseURL signed_in @ ''/devices'')
              (snd (request demo_platform only_refresh_works ''/devices'' no_options False signed_in))
             = calls_to (baseURL signed_in @ ''/devices'') after_401 + 1"
    by blast+
  from T have t3: "calls_to (baseURL signed_in @ ''/auth/refresh'')
              (snd (request demo_platform only_refresh_works ''/devices'' no_options False signed_in))
             \<le> calls_to (baseURL signed_in @ ''/auth/refresh'') after_401 + 2"
    by blast
  from O opaque_renewal_in_example opaque_retry_precheck
  have o1: "request demo_platform opaque_refresh ''/devices'' no_options False signed_in
             = (Inl session_expired_error, after_opaque_retry)"
    and o2: "calls_to (baseURL signed_in @ ''/devices'') after_opaque_retry
             = calls_to (baseURL signed_in @ ''/devices'') after_401"
    by blast+
  from S short_renewal_in_example short_retry_precheck rsp3
  have s1: "request demo_platform short_access ''/devices'' no_options False signed_in
             = (Inl (standard_error demo_platform unauthorized_body 401),
                after_second_renewal\<lparr>clock := clock after_second_renewal + int 5,
                  sent := sent after_second_renewal
                            @ [build_config after_second_renewal ''/devices'' no_options]\<rparr>)"
    by blast
  obtain sc where e: "ensureValidToken demo_platform always_unauthorized after_401
                        = (Inl (ApiError (JStr ''UNAUTHORIZED'') (JStr ''no'') 401 JUndefined), sc)"
    using renewal_fails_in_example
    by (cases "ensureValidToken demo_platform always_unauthorized after_401") auto
  from F e
  have f: "request demo_platform always_unauthorized ''/devices'' no_options False signed_in
              = (Inl session_expired_error, sc\<lparr>jar := removeAuthTokens (jar sc)\<rparr>)"
    by blast
  have n: "calls_to (baseURL signed_in @ ''/devices'') after_401 = 1"
          "calls_to (baseURL signed_in @ ''/auth/refresh'') after_401 = 0"
          "baseURL signed_in @ ''/devices'' = ''http://localhost:8000/devices''"
          "baseURL signed_in @ ''/auth/refresh'' = ''http://localhost:8000/auth/refresh''"
    by (simp_all add: calls_to_def after_401_def signed_in_def build_config_def Let_def)
  have m: "calls_to ''http://localhost:8000/auth/refresh'' after_second_renewal = 2"
    by (simp add: calls_to_def after_second_renewal_def build_config_def Let_def
        after_401_def signed_in_def after_opaque_renewal_def)
  have v: "standard_error demo_platform unauthorized_body 401
             = ApiError (JStr ''UNAUTHORIZED'') (JStr ''no'') 401 JUndefined"
    by (simp add: standard_error_def error_of_payload_def nullish_def unauthorized_body_def)
  have k: "clock after_renewal = 10" "clock after_second_renewal = 15"
    by (simp_all add: after_renewal_def after_second_renewal_def)
  show ?thesis
    using signed_in_precheck[of only_refresh_works "''/devices''"]
      rsp prot renewal_in_example
      after_renewal_precheck[of only_refresh_works] opaque_renewal_in_example
      opaque_retry_precheck short_retry_precheck t1 t2 t3 o1 o2 s1 f n m v k
    by (simp add: removeAuthTokens_def)
qed

section \<open>Tokens are written together\<close>




















section \<open>Concurrent callers of the renewal\<close>

lemma single_flight_length: "single_flight c \<Longrightarrow> length (in_flight c) \<le> 1"
proof -
  assume a: "single_flight c"
  show ?thesis
  proof (cases "in_flight c")
    case Nil
    then show ?thesis by simp
  next
    case (Cons p ps)
    have "ps = []"
    proof (cases ps)
      case Nil
      then show ?thesis .
    next
      case (Cons q qs)
      with \<open>in_flight c = p # ps\<close> a have "refreshPromise (shared c) = Some p"
        "refreshPromise (shared c) = Some q" "p \<noteq> q"
        by (auto simp: single_flight_def)
      then show ?thesis by simp
    qed
    with Cons show ?thesis by simp
  qed
qed

lemma single_flight_idle: "single_flight (idle_coordinator base ck now past)"
  by (simp add: single_flight_def idle_coordinator_def)

lemma finish_refresh_flags:
  "\<not> isRefreshing (snd (finish_refresh pf v s))"
  "refreshPromise (snd (finish_refresh pf v s)) = None"
  by (simp_all add: finish_refresh_def store_tokens_def split: sum.splits)

lemma single_flight_call:
  assumes "single_flight c" and "callers c t = NotCalled"
  shows "single_flight (call_ensureValidToken pf t c)"
proof (cases "if isRefreshing (shared c) then refreshPromise (shared c) else None")
  case (Some p)
  with assms show ?thesis
    by (auto simp: call_ensureValidToken_def single_flight_def)
next
  case None
  then have idle: "\<not> (isRefreshing (shared c) \<and> refreshPromise (shared c) \<noteq> None)"
    by (auto split: if_splits)
  with assms(1) have nf: "in_flight c = []" and ns: "\<And>t p. callers c t \<noteq> Started p"
    by (cases "in_flight c"; auto simp: single_flight_def)+
  show ?thesis
  proof (cases "getRefreshToken (jar (shared c)) (clock (shared c))")
    case N: None
    with None assms show ?thesis
      by (auto simp: call_ensureValidToken_def single_flight_def)
  next
    case (Some v)
    show ?thesis
    proof (cases "v = [] \<or> \<not> isRefreshTokenValid pf (jar (shared c)) (clock (shared c))")
      case True
      with None Some assms show ?thesis
        by (auto simp: call_ensureValidToken_def single_flight_def)
    next
      case False
      with None Some nf ns show ?thesis
        by (auto simp: call_ensureValidToken_def single_flight_def Let_def)
    qed
  qed
qed

lemma single_flight_deliver:
  assumes "single_flight c"
  shows "single_flight (deliver pf net p c)"
  using assms
  by (auto simp: deliver_def single_flight_def distinct_removeAll split: prod.splits option.splits)

lemma single_flight_resume:
  assumes "single_flight c"
  shows "single_flight (resume pf t c)"
proof (cases "callers c t")
  case (Started p)
  show ?thesis
  proof (cases "promises c p")
    case Pending
    with Started assms show ?thesis by (simp add: resume_def)
  next
    case (Settled v)
    from assms Started have fl: "refreshPromise (shared c) = Some p"
      by (auto simp: single_flight_def)
    have nf: "in_flight c = []"
    proof (cases "in_flight c")
      case Nil then show ?thesis .
    next
      case (Cons q qs)
      with assms have "refreshPromise (shared c) = Some q" "promises c q = Pending"
        by (auto simp: single_flight_def)
      with fl Settled show ?thesis by simp
    qed
    have only: "\<And>t' p'. callers c t' = Started p' \<Longrightarrow> t' = t"
      using assms Started by (auto simp: single_flight_def)
    obtain r s' where f: "finish_refresh pf v (shared c) = (r, s')"
      by (cases "finish_refresh pf v (shared c)")
    have r: "resume pf t c = c\<lparr>shared := s', callers := (callers c)(t := Returned r)\<rparr>"
      using Started Settled f by (simp add: resume_def)
    show ?thesis using nf only by (auto simp: r single_flight_def)
  qed
next
  case (Joined p)
  with assms show ?thesis
    by (cases "promises c p") (auto simp: resume_def single_flight_def)
qed (use assms in \<open>simp_all add: resume_def\<close>)

lemma single_flight_step: "single_flight c \<Longrightarrow> single_flight (step pf net e c)"
  by (cases e)
     (simp_all add: step_def single_flight_call single_flight_deliver single_flight_resume,
      simp add: single_flight_def)

lemma single_flight_run: "single_flight c \<Longrightarrow> single_flight (run pf net es c)"
  by (induction es arbitrary: c) (simp_all add: single_flight_step)

text \<open>
  C1. Whatever callers call \<open>ensureValidToken\<close> and in whatever order answers arrive and
  continuations run, at most one renewal request is in flight in every state reached; and a
  caller that calls while one is in flight sends nothing and waits for the pending promise
  of that request.
\<close>

theorem one_renewal_in_flight:
  "length (in_flight (run pf net es (idle_coordinator base ck now past))) \<le> 1
   \<and> (in_flight (run pf net es (idle_coordinator base ck now past)) \<noteq> []
        \<and> callers (run pf net es (idle_coordinator base ck now past)) t = NotCalled \<longrightarrow>
       sent (shared (step pf net (Call t) (run pf net es (idle_coordinator base ck now past))))
         = sent (shared (run pf net es (idle_coordinator base ck now past)))
       \<and> in_flight (step pf net (Call t) (run pf net es (idle_coordinator base ck now past)))
         = in_flight (run pf net es (idle_coordinator base ck now past))
       \<and> (\<exists>p. in_flight (run pf net es (idle_coordinator base ck now past)) = [p]
              \<and> promises (run pf net es (idle_coordinator base ck now past)) p = Pending
              \<and> callers (step pf net (Call t) (run pf net es (idle_coordinator base ck now past))) t
                  = Joined p))"
proof -
  define c where "c = run pf net es (idle_coordinator base ck now past)"
  have inv: "single_flight c"
    unfolding c_def by (rule single_flight_run[OF single_flight_idle])
  have len: "length (in_flight c) \<le> 1" by (rule single_flight_length[OF inv])
  have join: "sent (shared (step pf net (Call t) c)) = sent (shared c)
       \<and> in_flight (step pf net (Call t) c) = in_flight c
       \<and> (\<exists>p. in_flight c = [p] \<and> promises c p = Pending
              \<and> callers (step pf net (Call t) c) t = Joined p)"
    if ne: "in_flight c \<noteq> []" and nc: "callers c t = NotCalled"
  proof -
    from ne len obtain p where p: "in_flight c = [p]"
      by (cases "in_flight c") auto
    with inv have fl: "isRefreshing (shared c)" "refreshPromise (shared c) = Some p"
      "promises c p = Pending"
      by (auto simp: single_flight_def)
    then have "step pf net (Call t) c = c\<lparr>callers := (callers c)(t := Joined p)\<rparr>"
      using nc by (simp add: step_def call_ensureValidToken_def)
    with p fl show ?thesis by simp
  qed
  from len join show ?thesis unfolding c_def by blast
qed

lemmas coordinator_defs =
  step_def call_ensureValidToken_def deliver_def resume_def idle_coordinator_def
  cookies_only_refresh_def refresh_only_def two_callers_def two_callers_resolved_def
  success_without_data_def reply_200_def join_refresh_def refresh_failed_error_def

lemma two_callers_state:
  "in_flight (run demo_platform net two_callers
      (idle_coordinator ''http://localhost:8000'' cookies_only_refresh 0 [])) = [0]"
  "callers (run demo_platform net two_callers
      (idle_coordinator ''http://localhost:8000'' cookies_only_refresh 0 [])) 2 = NotCalled"
  "callers (run demo_platform net two_callers
      (idle_coordinator ''http://localhost:8000'' cookies_only_refresh 0 [])) 1 = Joined 0"
  "length (sent (shared (run demo_platform net two_callers
      (idle_coordinator ''http://localhost:8000'' cookies_only_refresh 0 [])))) = 1"
  by (simp_all add: coordinator_defs example_defs)

theorem one_renewal_in_flight_witness:
  "in_flight (run demo_platform html_401 two_callers
      (idle_coordinator ''http://localhost:8000'' cookies_only_refresh 0 [])) \<noteq> []
   \<and> callers (run demo_platform html_401 two_callers
      (idle_coordinator ''http://localhost:8000'' cookies_only_refresh 0 [])) 2 = NotCalled
   \<and> length (sent (shared (step demo_platform html_401 (Call 2)
        (run demo_platform html_401 two_callers
          (idle_coordinator ''http://localhost:8000'' cookies_only_refresh 0 []))))) = 1
   \<and> in_flight (step demo_platform html_401 (Call 2)
        (run demo_platform html_401 two_callers
          (idle_coordinator ''http://localhost:8000'' cookies_only_refresh 0 []))) = [0]
   \<and> callers (step demo_platform html_401 (Call 2)
        (run demo_platform html_401 two_callers
          (idle_coordinator ''http://localhost:8000'' cookies_only_refresh 0 []))) 2 = Joined 0"
  using two_callers_state[of html_401]
    one_renewal_in_flight [where pf = demo_platform and net = html_401 and es = two_callers
      and base = "''http://localhost:8000''" and ck = cookies_only_refresh and now = 0
      and past = "[]" and t = 2]
  by auto

text \<open>
  C2 fails on the code. Two callers, the second joined to the first one's renewal; the
  renewal endpoint answers 200 with \<open>{"success": true}\<close> and no \<open>data\<close>. The caller that
  started the renewal throws the failed-refresh error; the caller that joined returns
  normally.
\<close>

theorem coalesced_waiter_diverges:
  "callers (run demo_platform (reply_200 success_without_data) two_callers_resolved
      (idle_coordinator ''http://localhost:8000'' cookies_only_refresh 0 [])) 0
     = Returned (Inl refresh_failed_error)
   \<and> callers (run demo_platform (reply_200 success_without_data) two_callers_resolved
      (idle_coordinator ''http://localhost:8000'' cookies_only_refresh 0 [])) 1
     = Returned (Inr ())"
  by (simp add: coordinator_defs example_defs)

end
